theory Spec2Isabelle
  imports Main "HOL-Library.AList"
begin

section \<open>JavaScript values\<close>

text \<open>
  The handlers read request bodies parsed from JSON, rows returned by the persistent
  store and entries of the in-process \<^verbatim>\<open>Map\<close>. All of them are plain JavaScript
  values. Numbers are modelled as integers (the handlers only test them for
  truthiness, compare them and print them). An object is the list of its own
  properties in insertion order.
\<close>

datatype jsval =
    JUndefined
  | JNull
  | JBool bool
  | JNum int
  | JStr string
  | JArr "jsval list"
  | JObj "(string \<times> jsval) list"

type_synonym obj = "(string \<times> jsval) list"

text \<open>\<^verbatim>\<open>!!v\<close>: the values that count as true in a condition and on the left of \<^verbatim>\<open>||\<close>.\<close>

fun truthy :: "jsval \<Rightarrow> bool" where
  "truthy JUndefined = False"
| "truthy JNull = False"
| "truthy (JBool b) = b"
| "truthy (JNum n) = (n \<noteq> 0)"
| "truthy (JStr s) = (s \<noteq> [])"
| "truthy (JArr xs) = True"
| "truthy (JObj kvs) = True"

text \<open>\<^verbatim>\<open>a || b\<close>.\<close>

definition js_or :: "jsval \<Rightarrow> jsval \<Rightarrow> jsval" where
  "js_or a b = (if truthy a then a else b)"

text \<open>\<^verbatim>\<open>o.k\<close> on an object given by its property list; a missing property reads \<^verbatim>\<open>undefined\<close>.\<close>

definition get :: "obj \<Rightarrow> string \<Rightarrow> jsval" where
  "get ob k = (case map_of ob k of None \<Rightarrow> JUndefined | Some v \<Rightarrow> v)"

text \<open>
  \<^verbatim>\<open>v.k\<close> on a value that is neither \<^verbatim>\<open>null\<close> nor \<^verbatim>\<open>undefined\<close>, for a property
  name \<^verbatim>\<open>k\<close> that no built-in prototype defines: a primitive or an array gives
  \<^verbatim>\<open>undefined\<close>. Reading from \<^verbatim>\<open>null\<close> or \<^verbatim>\<open>undefined\<close> raises a TypeError; the
  handlers below test \<open>nullish\<close> wherever the source can get there.
\<close>

fun js_member :: "jsval \<Rightarrow> string \<Rightarrow> jsval" where
  "js_member (JObj ob) k = get ob k"
| "js_member v k = JUndefined"

fun nullish :: "jsval \<Rightarrow> bool" where
  "nullish JUndefined = True"
| "nullish JNull = True"
| "nullish v = False"

text \<open>
  An object literal \<^verbatim>\<open>{...o, k1: v1, ..., kn: vn}\<close>: the properties of \<^verbatim>\<open>o\<close>, each
  \<^verbatim>\<open>ki\<close> then set in turn (an existing property keeps its place, a new one is added
  last).
\<close>

fun assign :: "obj \<Rightarrow> (string \<times> jsval) list \<Rightarrow> obj" where
  "assign ob [] = ob"
| "assign ob ((k, v) # kvs) = assign (AList.update k v ob) kvs"

text \<open>A header or an environment variable: a string, or \<^verbatim>\<open>undefined\<close> when it is not set.\<close>

fun of_opt :: "string option \<Rightarrow> jsval" where
  "of_opt None = JUndefined"
| "of_opt (Some s) = JStr s"

text \<open>Decimal digits of a number, as \<^verbatim>\<open>toString\<close> and template strings print them.\<close>

fun string_of_nat :: "nat \<Rightarrow> string" where
  "string_of_nat n =
     (if n < 10 then [''0123456789'' ! n]
      else string_of_nat (n div 10) @ [''0123456789'' ! (n mod 10)])"

fun intercalate :: "string \<Rightarrow> string list \<Rightarrow> string" where
  "intercalate sep [] = []"
| "intercalate sep [x] = x"
| "intercalate sep (x # y # ys) = x @ sep @ intercalate sep (y # ys)"

text \<open>
  \<^verbatim>\<open>v.toString()\<close> / \<^verbatim>\<open>String(v)\<close> for the values above. A number is printed as
  JavaScript prints an integer that a double holds exactly and whose magnitude is
  below \<open>10\<^sup>2\<^sup>1\<close> (all integers up to \<open>2\<^sup>5\<^sup>3\<close> are such); JavaScript's exponent
  notation for larger numbers and its fractions are outside the model.
\<close>

fun js_toString :: "jsval \<Rightarrow> string" where
  "js_toString JUndefined = ''undefined''"
| "js_toString JNull = ''null''"
| "js_toString (JBool b) = (if b then ''true'' else ''false'')"
| "js_toString (JNum n) =
     (if n < 0 then CHR ''-'' # string_of_nat (nat (- n)) else string_of_nat (nat n))"
| "js_toString (JStr s) = s"
| "js_toString (JArr xs) =
     intercalate '',''
       (map (\<lambda>x. case x of JNull \<Rightarrow> [] | JUndefined \<Rightarrow> [] | _ \<Rightarrow> js_toString x) xs)"
| "js_toString (JObj kvs) = ''[object Object]''"


text \<open>
  The message of the TypeError that reading the property \<^verbatim>\<open>k\<close> of \<^verbatim>\<open>null\<close> or
  \<^verbatim>\<open>undefined\<close> raises; the property name stands in single quotes.
\<close>

definition type_error :: "jsval \<Rightarrow> string \<Rightarrow> string" where
  "type_error v k =
     ''Cannot read properties of '' @ js_toString v @ '' (reading '' @ [CHR 0x27] @ k
       @ [CHR 0x27] @ '')''"


section \<open>Phone normalisation (utils/phoneFormatter.js)\<close>

text \<open>
  \<^verbatim>\<open>formatLiberianPhone(phone)\<close> takes the raw phone number, a string, and returns
  \<^verbatim>\<open>{success: true, phone}\<close> (\<open>Inr\<close>) or \<^verbatim>\<open>{success: false, error}\<close> (\<open>Inl\<close>, the
  message). Only the digits 0 to 9 survive its first step, so the length it tests
  afterwards is the number of digits, however the other characters are encoded.
\<close>

definition is_digit :: "char \<Rightarrow> bool" where
  "is_digit c = (c \<in> set ''0123456789'')"

text \<open>\<^verbatim>\<open>phone.replace(/\D/g, "")\<close>\<close>

definition digits_only :: "string \<Rightarrow> string" where
  "digits_only s = filter is_digit s"

text \<open>\<^verbatim>\<open>.replace(/^\+/, "")\<close>\<close>

fun strip_plus :: "string \<Rightarrow> string" where
  "strip_plus [] = []"
| "strip_plus (c # cs) = (if c = CHR ''+'' then cs else c # cs)"

text \<open>\<^verbatim>\<open>.replace(/^0+/, "")\<close>\<close>

definition strip_zeros :: "string \<Rightarrow> string" where
  "strip_zeros s = dropWhile (\<lambda>c. c = CHR ''0'') s"

text \<open>\<^verbatim>\<open>s.startsWith(p)\<close>\<close>

definition startsWith :: "string \<Rightarrow> string \<Rightarrow> bool" where
  "startsWith s p = (take (length p) s = p)"

text \<open>The value of \<^verbatim>\<open>formattedPhone\<close> when its length is tested.\<close>

definition normalizePhone :: "string \<Rightarrow> string" where
  "normalizePhone phone =
     (let formattedPhone = strip_zeros (strip_plus (digits_only phone))
      in if \<not> startsWith formattedPhone ''231'' then ''231'' @ formattedPhone
         else formattedPhone)"

definition formatLiberianPhone :: "string \<Rightarrow> string + string" where
  "formatLiberianPhone phone =
     (if phone = [] then Inl ''Phone number is required''
      else let formattedPhone = normalizePhone phone
           in if length formattedPhone \<noteq> 12
              then Inl (''Invalid Liberia MSISDN: '' @ formattedPhone @
                        ''. Must be 12 digits (231 + 9-digit number)'')
              else Inr formattedPhone)"

text \<open>
  The validation at the head of \<^verbatim>\<open>POST /pay\<close> (routes/payment.routes.js): the
  request is answered 400 when phone or amount is missing and when the formatter
  reports a failure; a phone that is not a string has no \<^verbatim>\<open>replace\<close> method, the
  TypeError reaches the route's \<^verbatim>\<open>catch\<close> and the answer is 500. \<open>Inr\<close> is the
  formatted phone the route goes on with.
\<close>

definition pay_validation :: "jsval \<Rightarrow> jsval \<Rightarrow> (nat \<times> string) + string" where
  "pay_validation phone amount =
     (if \<not> truthy phone \<or> \<not> truthy amount
      then Inl (400, ''Missing required fields: phone and amount are required'')
      else case phone of
             JStr s \<Rightarrow> (case formatLiberianPhone s of
                          Inl err \<Rightarrow> Inl (400, err)
                        | Inr formattedPhone \<Rightarrow> Inr formattedPhone)
           | _ \<Rightarrow> Inl (500, ''phone.replace is not a function''))"


section \<open>Configuration, collaborators and effects\<close>

text \<open>
  What the process reads once at start: whether the Supabase client was created
  (\<^verbatim>\<open>supabase\<close> is not \<^verbatim>\<open>null\<close>) and the environment variable
  \<^verbatim>\<open>MOMO_CALLBACK_SECRET\<close>.
\<close>

record config =
  supabase :: bool
  MOMO_CALLBACK_SECRET :: "string option"

text \<open>
  An awaited call to a collaborator either rejects with an Error (its message) or
  resolves to a value. A Supabase query resolves to \<^verbatim>\<open>{data, error}\<close>.
\<close>

datatype 'a outcome = Throws string | Returns 'a

record reply =
  data :: jsval
  dbError :: jsval

text \<open>
  What the outside world answers during one callback request: the clock
  (\<^verbatim>\<open>new Date().toISOString()\<close>; one reading stands for all readings of the
  request), the elapsed milliseconds, the hex digest \<^verbatim>\<open>crypto\<close> computes for a secret
  and a payload, and the answers of the store to the select and to the update of the
  request (a request issues at most one of each).
\<close>

record world =
  now :: string
  elapsed :: nat
  hmac_sha256_hex :: "string \<Rightarrow> obj \<Rightarrow> string"
  db_select :: "reply outcome"
  db_update :: "reply outcome"

text \<open>
  What a request does to the outside world, in order: queries sent to the store, the
  call of \<^verbatim>\<open>notifyListeners\<close> (every listener runs inside its own \<^verbatim>\<open>try\<close>; the
  repository registers none), the side-effect hooks, and the timer of the status
  route.
\<close>

datatype effect =
    DbSelectOr jsval jsval
  | DbSelectEq jsval
  | DbUpdate obj jsval
  | NotifyListeners obj
  | is_SendConfirmationEmail: SendConfirmationEmail jsval
  | is_UpdateInventory: UpdateInventory jsval
  | is_AwardLoyaltyPoints: AwardLoyaltyPoints jsval
  | is_TriggerOrderFulfillment: TriggerOrderFulfillment jsval
  | is_SendFailureNotification: SendFailureNotification jsval jsval
  | is_LogFailedTransaction: LogFailedTransaction obj
  | ScheduleCacheDelete string nat

text \<open>How often a hook fired among the effects.\<close>

definition fired :: "(effect \<Rightarrow> bool) \<Rightarrow> effect list \<Rightarrow> nat" where
  "fired hook effs = length (filter hook effs)"

text \<open>
  The in-process \<^verbatim>\<open>Map\<close> shared by the routes (\<^verbatim>\<open>transactionStore\<close>,
  \<^verbatim>\<open>pendingTransactions\<close>). A \<^verbatim>\<open>Map\<close> compares object keys by identity, and an object
  parsed from a request is a new one each time, so \<^verbatim>\<open>get\<close> never finds an object or
  array key.
\<close>

type_synonym store = "jsval \<Rightarrow> obj option"

fun is_reference :: "jsval \<Rightarrow> bool" where
  "is_reference (JObj ob) = True"
| "is_reference (JArr xs) = True"
| "is_reference v = False"

definition store_get :: "store \<Rightarrow> jsval \<Rightarrow> obj option" where
  "store_get st k = (if is_reference k then None else st k)"

definition store_set :: "store \<Rightarrow> jsval \<Rightarrow> obj \<Rightarrow> store" where
  "store_set st k v = st(k \<mapsto> v)"

record response =
  code :: nat
  json_body :: obj


section \<open>The callback handler (MoMoCallbackHandler.js)\<close>

subsection \<open>Signature verification\<close>

text \<open>
  \<^verbatim>\<open>verifyCallbackSignature(payload, signature, secret)\<close>. \<^verbatim>\<open>crypto.timingSafeEqual\<close>
  raises a RangeError when the two buffers differ in length.
\<close>

definition verifyCallbackSignature ::
  "(string \<Rightarrow> obj \<Rightarrow> string) \<Rightarrow> obj \<Rightarrow> string option \<Rightarrow> string option \<Rightarrow> string + bool" where
  "verifyCallbackSignature hmac payload signature secret =
     (if \<not> truthy (of_opt signature) \<or> \<not> truthy (of_opt secret) then Inr True
      else let expectedSignature = hmac (the secret) payload
           in if length (the signature) \<noteq> length expectedSignature
              then Inl ''Input buffers must have the same byte length''
              else Inr (the signature = expectedSignature))"

subsection \<open>The per-status handlers\<close>

text \<open>
  Each handler returns what the \<^verbatim>\<open>async\<close> function resolves to (\<open>Inr\<close>) or the error
  it rejects with (\<open>Inl\<close>), the store afterwards and the effects in order.
\<close>

definition processSuccessfulPayment ::
  "config \<Rightarrow> world \<Rightarrow> obj \<Rightarrow> store \<Rightarrow> (string + jsval) \<times> store \<times> effect list" where
  "processSuccessfulPayment cfg w transactionData st =
     (let referenceId = get transactionData ''referenceId'';
          updateData =
            [(''payment_status'', JStr ''SUCCESSFUL''),
             (''payment_confirmed_at'', JStr (now w)),
             (''financial_transaction_id'',
                js_or (get transactionData ''financialTransactionId'') JNull),
             (''callback_received'', JBool True),
             (''callback_data'', JObj transactionData),
             (''last_status_check'', JStr (now w))];
          finish = (\<lambda>updatedOrder eff.
            let transactionData' = assign transactionData
                  [(''status'', JStr ''SUCCESSFUL''), (''processedAt'', JStr (now w))];
                order = js_or updatedOrder (JObj transactionData')
            in (Inr order, store_set st referenceId transactionData',
                eff @ [NotifyListeners transactionData',
                       SendConfirmationEmail order,
                       UpdateInventory order,
                       AwardLoyaltyPoints order,
                       TriggerOrderFulfillment order]))
      in if supabase cfg then
           (case db_update w of
              Throws e \<Rightarrow> (Inl e, st, [DbUpdate updateData referenceId])
            | Returns r \<Rightarrow>
                if truthy (dbError r) then finish JNull [DbUpdate updateData referenceId]
                else if nullish (data r)
                then (Inl (type_error (data r) ''id''), st,
                      [DbUpdate updateData referenceId])
                else finish (data r) [DbUpdate updateData referenceId])
         else finish JNull [])"

definition processFailedPayment ::
  "config \<Rightarrow> world \<Rightarrow> obj \<Rightarrow> jsval \<Rightarrow> store \<Rightarrow> (string + jsval) \<times> store \<times> effect list" where
  "processFailedPayment cfg w transactionData reason st =
     (let referenceId = get transactionData ''referenceId'';
          updateData =
            [(''payment_status'', JStr ''FAILED''),
             (''failure_reason'', js_or reason (JStr ''Unknown'')),
             (''callback_received'', JBool True),
             (''callback_data'', JObj transactionData),
             (''last_status_check'', JStr (now w))];
          finish = (\<lambda>updatedOrder eff.
            let transactionData' = assign transactionData
                  [(''status'', JStr ''FAILED''),
                   (''failureReason'', js_or reason (JStr ''Unknown'')),
                   (''processedAt'', JStr (now w))];
                order = js_or updatedOrder (JObj transactionData')
            in (Inr order, store_set st referenceId transactionData',
                eff @ [NotifyListeners transactionData',
                       SendFailureNotification order reason,
                       LogFailedTransaction transactionData']))
      in if supabase cfg then
           (case db_update w of
              Throws e \<Rightarrow> (Inl e, st, [DbUpdate updateData referenceId])
            | Returns r \<Rightarrow>
                if truthy (dbError r) then finish JNull [DbUpdate updateData referenceId]
                else if nullish (data r)
                then (Inl (type_error (data r) ''id''), st,
                      [DbUpdate updateData referenceId])
                else finish (data r) [DbUpdate updateData referenceId])
         else finish JNull [])"

definition processPendingPayment ::
  "config \<Rightarrow> world \<Rightarrow> obj \<Rightarrow> store \<Rightarrow> (string + jsval) \<times> store \<times> effect list" where
  "processPendingPayment cfg w transactionData st =
     (let referenceId = get transactionData ''referenceId'';
          updateData =
            [(''payment_status'', JStr ''PENDING''),
             (''callback_received'', JBool True),
             (''callback_data'', JObj transactionData),
             (''last_status_check'', JStr (now w))];
          finish = (\<lambda>updatedOrder eff.
            let transactionData' = assign transactionData
                  [(''status'', JStr ''PENDING''), (''lastUpdated'', JStr (now w))]
            in (Inr (js_or updatedOrder (JObj transactionData')),
                store_set st referenceId transactionData',
                eff @ [NotifyListeners transactionData']))
      in if supabase cfg then
           (case db_update w of
              Throws e \<Rightarrow> (Inl e, st, [DbUpdate updateData referenceId])
            | Returns r \<Rightarrow>
                if truthy (dbError r) then finish JNull [DbUpdate updateData referenceId]
                else finish (data r) [DbUpdate updateData referenceId])
         else finish JNull [])"

subsection \<open>POST /callback\<close>

record request =
  x_reference_id :: "string option"
  x_momo_signature :: "string option"
  body :: obj

text \<open>\<^verbatim>\<open>callbackPayload.k || null\<close>\<close>

definition field :: "obj \<Rightarrow> string \<Rightarrow> jsval" where
  "field callbackPayload k = js_or (get callbackPayload k) JNull"

text \<open>
  \<^verbatim>\<open>const referenceId = req.headers["x-reference-id"] || callbackPayload.referenceId || externalId\<close>
\<close>

definition referenceId_of :: "request \<Rightarrow> jsval" where
  "referenceId_of req =
     js_or (of_opt (x_reference_id req))
       (js_or (get (body req) ''referenceId'') (field (body req) ''externalId''))"

text \<open>The condition of the 400 answer.\<close>

definition no_identifier :: "request \<Rightarrow> bool" where
  "no_identifier req =
     (\<not> truthy (referenceId_of req) \<and> \<not> truthy (field (body req) ''externalId'')
      \<and> \<not> truthy (field (body req) ''financialTransactionId''))"

text \<open>\<^verbatim>\<open>const transactionId = referenceId || externalId || financialTransactionId\<close>\<close>

definition transactionId_of :: "request \<Rightarrow> jsval" where
  "transactionId_of req =
     js_or (referenceId_of req)
       (js_or (field (body req) ''externalId'') (field (body req) ''financialTransactionId''))"

text \<open>
  The signature check of the route: \<^verbatim>\<open>verifyCallbackSignature\<close> is called only when
  both the secret and the header are set.
\<close>

definition signature_gate :: "config \<Rightarrow> world \<Rightarrow> request \<Rightarrow> string + bool" where
  "signature_gate cfg w req =
     (if truthy (of_opt (MOMO_CALLBACK_SECRET cfg)) \<and> truthy (of_opt (x_momo_signature req))
      then verifyCallbackSignature (hmac_sha256_hex w) (body req)
             (x_momo_signature req) (MOMO_CALLBACK_SECRET cfg)
      else Inr True)"

text \<open>The condition of the 401 answer: the check ran and returned false.\<close>

definition signature_rejected :: "config \<Rightarrow> world \<Rightarrow> request \<Rightarrow> bool" where
  "signature_rejected cfg w req =
     (truthy (of_opt (MOMO_CALLBACK_SECRET cfg)) \<and> truthy (of_opt (x_momo_signature req))
      \<and> verifyCallbackSignature (hmac_sha256_hex w) (body req)
           (x_momo_signature req) (MOMO_CALLBACK_SECRET cfg) = Inr False)"

text \<open>
  The record the merge starts from: the entry of the in-process store, else the row
  of the persistent store, else a new record.
\<close>

definition lookup_transaction ::
  "config \<Rightarrow> world \<Rightarrow> request \<Rightarrow> store \<Rightarrow> (string + obj) \<times> effect list" where
  "lookup_transaction cfg w req st =
     (let transactionId = transactionId_of req;
          externalId = field (body req) ''externalId''
      in case store_get st transactionId of
           Some transactionData \<Rightarrow> (Inr transactionData, [])
         | None \<Rightarrow>
             if supabase cfg then
               (case db_select w of
                  Throws e \<Rightarrow> (Inl e, [DbSelectOr transactionId externalId])
                | Returns r \<Rightarrow>
                    (let order = data r
                     in if truthy order
                        then (Inr [(''referenceId'',
                                      js_or (js_member order ''reference_id'') transactionId),
                                   (''orderId'', js_member order ''id''),
                                   (''status'', js_member order ''payment_status''),
                                   (''createdAt'', js_member order ''created_at'')],
                              [DbSelectOr transactionId externalId])
                        else (Inr [(''referenceId'', transactionId),
                                   (''createdAt'', JStr (now w))],
                              [DbSelectOr transactionId externalId])))
             else (Inr [(''referenceId'', transactionId), (''createdAt'', JStr (now w))], []))"

text \<open>
  The properties written after the spread in
  \<^verbatim>\<open>transactionData = {...transactionData, referenceId: transactionId, ...}\<close>.
\<close>

definition callback_fields :: "jsval \<Rightarrow> obj \<Rightarrow> string \<Rightarrow> (string \<times> jsval) list" where
  "callback_fields transactionId callbackPayload ts =
     (let payer = js_or (get callbackPayload ''payer'') (JObj [])
      in [(''referenceId'', transactionId),
          (''financialTransactionId'', field callbackPayload ''financialTransactionId''),
          (''externalId'', field callbackPayload ''externalId''),
          (''amount'', field callbackPayload ''amount''),
          (''currency'', field callbackPayload ''currency''),
          (''status'', field callbackPayload ''status''),
          (''payer'', payer),
          (''payerPhone'', js_or (js_member payer ''partyId'') JNull),
          (''payerIdType'', js_or (js_member payer ''partyIdType'') JNull),
          (''payeeNote'', field callbackPayload ''payeeNote''),
          (''payerMessage'', field callbackPayload ''payerMessage''),
          (''reason'', field callbackPayload ''reason''),
          (''callbackReceivedAt'', JStr ts),
          (''rawCallbackPayload'', JObj callbackPayload)])"

definition merge_callback :: "obj \<Rightarrow> jsval \<Rightarrow> obj \<Rightarrow> string \<Rightarrow> obj" where
  "merge_callback transactionData transactionId callbackPayload ts =
     assign transactionData (callback_fields transactionId callbackPayload ts)"

text \<open>The \<^verbatim>\<open>switch (status)\<close>.\<close>

definition dispatch ::
  "config \<Rightarrow> world \<Rightarrow> jsval \<Rightarrow> jsval \<Rightarrow> jsval \<Rightarrow> obj \<Rightarrow> store
     \<Rightarrow> (string + jsval) \<times> store \<times> effect list" where
  "dispatch cfg w status reason transactionId transactionData st =
     (if status = JStr ''SUCCESSFUL'' then processSuccessfulPayment cfg w transactionData st
      else if status = JStr ''FAILED''
      then processFailedPayment cfg w transactionData reason st
      else if status = JStr ''PENDING'' \<or> status = JStr ''CREATED''
      then processPendingPayment cfg w transactionData st
      else (Inr JUndefined, store_set st transactionId transactionData, []))"

definition ok_response :: "world \<Rightarrow> request \<Rightarrow> response" where
  "ok_response w req =
     \<lparr>code = 200,
      json_body =
        [(''success'', JBool True),
         (''message'', JStr ''Callback received and processed''),
         (''referenceId'', transactionId_of req),
         (''financialTransactionId'', field (body req) ''financialTransactionId''),
         (''externalId'', field (body req) ''externalId''),
         (''status'', field (body req) ''status''),
         (''processingTime'', JStr (string_of_nat (elapsed w) @ ''ms''))]\<rparr>"

text \<open>The route after the signature check, up to the answer it sends.\<close>

definition callback_process ::
  "config \<Rightarrow> world \<Rightarrow> request \<Rightarrow> store \<Rightarrow> (string + response) \<times> store \<times> effect list" where
  "callback_process cfg w req st =
     (case lookup_transaction cfg w req st of
        (Inl e, eff) \<Rightarrow> (Inl e, st, eff)
      | (Inr existing, eff) \<Rightarrow>
          (let transactionData =
                 merge_callback existing (transactionId_of req) (body req) (now w)
           in case dispatch cfg w (field (body req) ''status'') (field (body req) ''reason'')
                     (transactionId_of req) transactionData st of
                (Inl e, st', eff') \<Rightarrow> (Inl e, st', eff @ eff')
              | (Inr r, st', eff') \<Rightarrow> (Inr (ok_response w req), st', eff @ eff')))"

text \<open>The \<^verbatim>\<open>try\<close> block of the route: \<open>Inl\<close> is an error that reaches the \<^verbatim>\<open>catch\<close>.\<close>

definition callback_try ::
  "config \<Rightarrow> world \<Rightarrow> request \<Rightarrow> store \<Rightarrow> (string + response) \<times> store \<times> effect list" where
  "callback_try cfg w req st =
     (if no_identifier req
      then (Inr \<lparr>code = 400,
                 json_body =
                   [(''success'', JBool False),
                    (''message'', JStr ''Reference ID, External ID, or Financial Transaction ID is required'')]\<rparr>,
            st, [])
      else case signature_gate cfg w req of
             Inl e \<Rightarrow> (Inl e, st, [])
           | Inr isValid \<Rightarrow>
               if \<not> isValid
               then (Inr \<lparr>code = 401,
                          json_body = [(''success'', JBool False),
                                       (''message'', JStr ''Invalid signature'')]\<rparr>,
                     st, [])
               else callback_process cfg w req st)"

text \<open>The route: the \<^verbatim>\<open>catch\<close> answers 200 as well.\<close>

definition callback_route ::
  "config \<Rightarrow> world \<Rightarrow> request \<Rightarrow> store \<Rightarrow> response \<times> store \<times> effect list" where
  "callback_route cfg w req st =
     (case callback_try cfg w req st of
        (Inl e, st', eff) \<Rightarrow>
          (\<lparr>code = 200,
            json_body = [(''success'', JBool False),
                         (''message'', JStr ''Callback received but processing failed''),
                         (''error'', JStr e)]\<rparr>,
           st', eff)
      | (Inr res, st', eff) \<Rightarrow> (res, st', eff))"

text \<open>A sequence of deliveries, each with the answers of the world at that time.\<close>

fun deliver ::
  "config \<Rightarrow> store \<Rightarrow> (world \<times> request) list \<Rightarrow> store \<times> response list \<times> effect list" where
  "deliver cfg st [] = (st, [], [])"
| "deliver cfg st ((w, req) # ds) =
     (case callback_route cfg w req st of
        (res, st', eff) \<Rightarrow>
          (case deliver cfg st' ds of
             (st'', ress, effs) \<Rightarrow> (st'', res # ress, eff @ effs)))"

text \<open>An answer that acknowledges the callback as processed: \<^verbatim>\<open>success: true\<close>.\<close>

definition acknowledged :: "response \<Rightarrow> bool" where
  "acknowledged res = (get (json_body res) ''success'' = JBool True)"

text \<open>
  The four places an identifier can come from, in the order of the specification,
  and the first of a list of values that is present (truthy).
\<close>

definition identifiers :: "request \<Rightarrow> jsval list" where
  "identifiers req =
     [of_opt (x_reference_id req), get (body req) ''referenceId'',
      get (body req) ''externalId'', get (body req) ''financialTransactionId'']"

fun first_truthy :: "jsval list \<Rightarrow> jsval" where
  "first_truthy [] = JNull"
| "first_truthy (v # vs) = (if truthy v then v else first_truthy vs)"

text \<open>The status the in-process store holds for a key.\<close>

definition stored_status :: "store \<Rightarrow> jsval \<Rightarrow> jsval" where
  "stored_status st k = (case store_get st k of None \<Rightarrow> JUndefined | Some d \<Rightarrow> get d ''status'')"


section \<open>The payment network client and GET /status\<close>

text \<open>
  What the payment network and the helpers around it answer during one request:
  the identifier \<^verbatim>\<open>uuidv4()\<close> draws, the awaited \<^verbatim>\<open>getAccessToken()\<close>,
  \<^verbatim>\<open>getAccountBalance\<close> and \<^verbatim>\<open>axios.post\<close> (status and data of the response), and
  the value of \<^verbatim>\<open>fetchTransactionDetails\<close>, which catches every error of its
  request and returns \<^verbatim>\<open>null\<close> then.
\<close>

record network =
  uuidv4 :: string
  getAccessToken :: "string outcome"
  getAccountBalance :: "jsval outcome"
  axios_post :: "(nat \<times> jsval) outcome"
  fetchTransactionDetails :: jsval

text \<open>
  For the status route, in addition: the answers of the store to the select and to
  the update of the request, and the clock.
\<close>

record status_world = network +
  db_lookup :: "reply outcome"
  db_write :: "reply outcome"
  clock :: string

definition terminal :: "jsval \<Rightarrow> bool" where
  "terminal status = (status = JStr ''SUCCESSFUL'' \<or> status = JStr ''FAILED'')"

text \<open>
  \<^verbatim>\<open>GET /status/:referenceId\<close> has the same code in the routes file and in
  MoMoPaymentProcessor.js. This is the part after the look at the store: the cache
  entry is read, the payment network is polled, and the answer is built from the
  poll or, when the poll gave nothing, from the cache.
\<close>

definition status_poll ::
  "config \<Rightarrow> 'a status_world_scheme \<Rightarrow> string \<Rightarrow> store \<Rightarrow> (string + response) \<times> store \<times> effect list" where
  "status_poll cfg w referenceId st =
     (let cached = store_get st (JStr referenceId)
      in case getAccessToken w of
           Throws e \<Rightarrow> (Inl e, st, [])
         | Returns accessToken \<Rightarrow>
             (let transaction = fetchTransactionDetails w
              in if \<not> truthy transaction
                 then (case cached of
                         Some c \<Rightarrow>
                           (Inr \<lparr>code = 200,
                                 json_body =
                                   [(''success'', JBool True),
                                    (''status'', js_or (get c ''status'') (JStr ''PENDING'')),
                                    (''message'', JStr ''Transaction is being processed''),
                                    (''source'', JStr ''cache'')]\<rparr>, st, [])
                       | None \<Rightarrow>
                           (Inr \<lparr>code = 404,
                                 json_body =
                                   [(''success'', JBool False),
                                    (''message'', JStr ''Transaction not found'')]\<rparr>, st, []))
                 else
                   (let status = js_member transaction ''status'';
                        updateData =
                          [(''payment_status'', status), (''last_status_check'', JStr (clock w))]
                          @ (if truthy (js_member transaction ''financialTransactionId'')
                             then [(''financial_transaction_id'',
                                      js_member transaction ''financialTransactionId'')]
                             else [])
                          @ (if status = JStr ''SUCCESSFUL''
                             then [(''payment_confirmed_at'', JStr (clock w))] else []);
                        st' = (case cached of
                                 Some c \<Rightarrow>
                                   store_set st (JStr referenceId) (assign c [(''status'', status)])
                               | None \<Rightarrow> st);
                        answer =
                          \<lparr>code = 200,
                           json_body =
                             [(''success'', JBool True), (''status'', status),
                              (''data'', transaction), (''source'', JStr ''momo_api'')]\<rparr>;
                        cleanup = (if terminal status
                                   then [ScheduleCacheDelete referenceId 300000] else [])
                    in if supabase cfg
                       then (case db_write w of
                               Throws e \<Rightarrow> (Inl e, st, [DbUpdate updateData (JStr referenceId)])
                             | Returns r \<Rightarrow>
                                 (Inr answer, st',
                                  DbUpdate updateData (JStr referenceId) # cleanup))
                       else (Inr answer, st', cleanup))))"

text \<open>The \<^verbatim>\<open>try\<close> block of the route: the store is asked first, if connected.\<close>

definition status_try ::
  "config \<Rightarrow> 'a status_world_scheme \<Rightarrow> string \<Rightarrow> store \<Rightarrow> (string + response) \<times> store \<times> effect list" where
  "status_try cfg w referenceId st =
     (if supabase cfg
      then (case db_lookup w of
              Throws e \<Rightarrow> (Inl e, st, [DbSelectEq (JStr referenceId)])
            | Returns r \<Rightarrow>
                if \<not> truthy (dbError r) \<and> truthy (data r)
                   \<and> terminal (js_member (data r) ''payment_status'')
                then (Inr \<lparr>code = 200,
                           json_body =
                             [(''success'', JBool True),
                              (''status'', js_member (data r) ''payment_status''),
                              (''orderDetails'', data r),
                              (''source'', JStr ''database'')]\<rparr>,
                      st, [DbSelectEq (JStr referenceId)])
                else (case status_poll cfg w referenceId st of
                        (res, st', eff) \<Rightarrow> (res, st', DbSelectEq (JStr referenceId) # eff)))
      else status_poll cfg w referenceId st)"

text \<open>The route: an error that reaches the \<^verbatim>\<open>catch\<close> is answered 500.\<close>

definition status_route ::
  "config \<Rightarrow> 'a status_world_scheme \<Rightarrow> string \<Rightarrow> store \<Rightarrow> response \<times> store \<times> effect list" where
  "status_route cfg w referenceId st =
     (case status_try cfg w referenceId st of
        (Inl e, st', eff) \<Rightarrow>
          (\<lparr>code = 500,
            json_body = [(''success'', JBool False),
                         (''message'', JStr ''Failed to check payment status''),
                         (''error'', JStr e)]\<rparr>,
           st', eff)
      | (Inr res, st', eff) \<Rightarrow> (res, st', eff))"

text \<open>
  The sources that hold a record for the reference id: the persistent store (the
  select returns a row without an error), the cache, the payment network.
\<close>

definition in_store :: "config \<Rightarrow> 'a status_world_scheme \<Rightarrow> bool" where
  "in_store cfg w =
     (supabase cfg \<and>
      (case db_lookup w of
         Throws e \<Rightarrow> False
       | Returns r \<Rightarrow> \<not> truthy (dbError r) \<and> truthy (data r)))"

definition in_store_terminal :: "config \<Rightarrow> 'a status_world_scheme \<Rightarrow> bool" where
  "in_store_terminal cfg w =
     (supabase cfg \<and>
      (case db_lookup w of
         Throws e \<Rightarrow> False
       | Returns r \<Rightarrow> \<not> truthy (dbError r) \<and> truthy (data r)
                      \<and> terminal (js_member (data r) ''payment_status'')))"

definition in_cache :: "store \<Rightarrow> string \<Rightarrow> bool" where
  "in_cache st referenceId = (store_get st (JStr referenceId) \<noteq> None)"

definition at_network :: "'a status_world_scheme \<Rightarrow> bool" where
  "at_network w = truthy (fetchTransactionDetails w)"

text \<open>A call of the store or of the token cache rejects.\<close>

definition lookup_throws :: "config \<Rightarrow> 'a status_world_scheme \<Rightarrow> bool" where
  "lookup_throws cfg w = (supabase cfg \<and> (case db_lookup w of Throws e \<Rightarrow> True | Returns r \<Rightarrow> False))"

definition token_throws :: "'a status_world_scheme \<Rightarrow> bool" where
  "token_throws w = (case getAccessToken w of Throws e \<Rightarrow> True | Returns t \<Rightarrow> False)"

definition write_throws :: "config \<Rightarrow> 'a status_world_scheme \<Rightarrow> bool" where
  "write_throws cfg w = (supabase cfg \<and> (case db_write w of Throws e \<Rightarrow> True | Returns r \<Rightarrow> False))"


section \<open>requestToPay\<close>

text \<open>
  The constants of config/momo.config.js, and the \<^verbatim>\<open>details\<close> object the pay route
  passes to \<^verbatim>\<open>requestToPay\<close>.
\<close>

record momo_config =
  MOMO_BASE_URL :: string
  MOMO_SUBSCRIPTION_KEY :: jsval
  MOMO_ENVIRONMENT :: string
  CALLBACK_URL :: string

record details =
  amount :: jsval
  currency :: jsval
  process_id :: jsval
  phone_no :: jsval
  message :: jsval

datatype http_call =
    HttpGet string "(string \<times> jsval) list"
  | HttpPost string obj "(string \<times> jsval) list"

text \<open>The request body of services/momoService.js.\<close>

definition requestBody :: "details \<Rightarrow> obj" where
  "requestBody d =
     [(''amount'', JStr (js_toString (amount d))),
      (''currency'', currency d),
      (''externalId'', process_id d),
      (''payer'', JObj [(''partyIdType'', JStr ''MSISDN''), (''partyId'', phone_no d)]),
      (''payerMessage'', message d),
      (''payeeNote'', message d)]"

text \<open>
  The request body of the second \<^verbatim>\<open>requestToPay\<close>, the one in
  routes/payment.routes.js, lines 614 to 698.
\<close>

definition requestBody_dup :: "details \<Rightarrow> obj" where
  "requestBody_dup d =
     [(''amount'', JStr ''1.00''),
      (''currency'', JStr ''USD''),
      (''externalId'', process_id d),
      (''payer'', JObj [(''partyIdType'', JStr ''MSISDN''), (''partyId'', phone_no d)]),
      (''payerMessage'', js_or (JStr ''Payment for Litway Picks'') (message d)),
      (''payeeNote'', js_or (JStr ''Payment for Litway Picks'') (message d))]"

text \<open>The headers of \<^verbatim>\<open>fetchTransactionDetails\<close> after \<^verbatim>\<open>X-Reference-Id\<close>.\<close>

definition api_headers :: "momo_config \<Rightarrow> string \<Rightarrow> (string \<times> jsval) list" where
  "api_headers mc accessToken =
     [(''Content-Type'', JStr ''application/json''),
      (''X-Target-Environment'', JStr (MOMO_ENVIRONMENT mc)),
      (''Ocp-Apim-Subscription-Key'', MOMO_SUBSCRIPTION_KEY mc),
      (''Authorization'', JStr accessToken)]"

text \<open>
  What both functions do once the POST has an answer: 200, 201 and 202 count as
  accepted, the transaction is fetched and returned; any other status is an error.
\<close>

definition after_post ::
  "momo_config \<Rightarrow> 'a network_scheme \<Rightarrow> string \<Rightarrow> string \<Rightarrow> http_call list
     \<Rightarrow> (string + obj) \<times> http_call list" where
  "after_post mc net referenceId accessToken calls =
     (case axios_post net of
        Throws e \<Rightarrow> (Inl e, calls)
      | Returns (status, d) \<Rightarrow>
          if status = 202 \<or> status = 201 \<or> status = 200
          then (Inr [(''success'', JBool True),
                     (''referenceId'', JStr referenceId),
                     (''transaction'', fetchTransactionDetails net),
                     (''status'', JNum (int status))],
                calls @ [HttpGet (MOMO_BASE_URL mc @ ''/collection/v1_0/requesttopay/'' @ referenceId)
                           ((''X-Reference-Id'', JStr referenceId) # api_headers mc accessToken)])
          else (Inl (''Unable to complete transaction. ''
                     @ js_toString (js_or (if nullish d then JUndefined else js_member d ''message'')
                                           (JStr ''''))),
                calls))"

text \<open>\<^verbatim>\<open>requestToPay(details, accessToken)\<close> of services/momoService.js.\<close>

definition requestToPay ::
  "momo_config \<Rightarrow> 'a network_scheme \<Rightarrow> details \<Rightarrow> string \<Rightarrow> (string + obj) \<times> http_call list" where
  "requestToPay mc net d accessToken =
     (let referenceId = uuidv4 net
      in if nullish (amount d)
         then (Inl (type_error (amount d) ''toString''), [])
         else after_post mc net referenceId accessToken
                [HttpPost (MOMO_BASE_URL mc @ ''/collection/v1_0/requesttopay'') (requestBody d)
                   [(''X-Reference-Id'', JStr referenceId),
                    (''X-Target-Environment'', JStr (MOMO_ENVIRONMENT mc)),
                    (''Ocp-Apim-Subscription-Key'', MOMO_SUBSCRIPTION_KEY mc),
                    (''X-Callback-Url'', JStr (CALLBACK_URL mc)),
                    (''Content-Type'', JStr ''application/json''),
                    (''Authorization'', JStr accessToken)]])"

text \<open>
  \<^verbatim>\<open>requestToPay(details, accessToken)\<close> of routes/payment.routes.js: the balance is
  read first, and the POST carries no callback URL.
\<close>

definition requestToPay_dup ::
  "momo_config \<Rightarrow> 'a network_scheme \<Rightarrow> details \<Rightarrow> string \<Rightarrow> (string + obj) \<times> http_call list" where
  "requestToPay_dup mc net d accessToken =
     (let referenceId = uuidv4 net;
          balance = HttpGet (MOMO_BASE_URL mc @ ''/collection/v1_0/account/balance/USD'')
                      [(''Authorization'', JStr accessToken),
                       (''X-Target-Environment'', JStr (MOMO_ENVIRONMENT mc)),
                       (''Ocp-Apim-Subscription-Key'', MOMO_SUBSCRIPTION_KEY mc)]
      in case getAccountBalance net of
           Throws e \<Rightarrow> (Inl e, [balance])
         | Returns b \<Rightarrow>
             after_post mc net referenceId accessToken
               [balance,
                HttpPost (MOMO_BASE_URL mc @ ''/collection/v1_0/requesttopay'') (requestBody_dup d)
                  [(''X-Reference-Id'', JStr referenceId),
                   (''X-Target-Environment'', JStr (MOMO_ENVIRONMENT mc)),
                   (''Ocp-Apim-Subscription-Key'', MOMO_SUBSCRIPTION_KEY mc),
                   (''Content-Type'', JStr ''application/json''),
                   (''Authorization'', JStr accessToken)]])"

text \<open>The body of the POST among the calls a function made.\<close>

fun posted_body :: "http_call list \<Rightarrow> obj option" where
  "posted_body [] = None"
| "posted_body (HttpPost url b hs # cs) = Some b"
| "posted_body (HttpGet url hs # cs) = posted_body cs"


section \<open>Example configurations, worlds and requests\<close>

text \<open>
  Concrete inputs for the examples below: a process without store credentials and
  without a callback secret (the default), one with both, a world whose store
  answers with an empty reply, and a digest function that stands for
  \<^verbatim>\<open>crypto\<close>'s (64 hexadecimal characters).
\<close>

definition fixed_digest :: "string \<Rightarrow> obj \<Rightarrow> string" where
  "fixed_digest secret payload = replicate 64 (CHR ''0'')"

definition offline :: config where
  "offline = \<lparr>supabase = False, MOMO_CALLBACK_SECRET = None\<rparr>"

definition secured :: config where
  "secured = \<lparr>supabase = True, MOMO_CALLBACK_SECRET = Some ''s3cret''\<rparr>"

definition quiet :: world where
  "quiet = \<lparr>now = ''2026-01-01T00:00:00.000Z'', elapsed = 3, hmac_sha256_hex = fixed_digest,
            db_select = Returns \<lparr>data = JNull, dbError = JNull\<rparr>,
            db_update = Returns \<lparr>data = JNull, dbError = JNull\<rparr>\<rparr>"

definition online :: config where
  "online = \<lparr>supabase = True, MOMO_CALLBACK_SECRET = None\<rparr>"

text \<open>A world whose store finds the row to update and returns it.\<close>

definition stored :: world where
  "stored =
     quiet\<lparr>db_update :=
             Returns \<lparr>data = JObj [(''id'', JNum 7), (''reference_id'', JStr ''ref-1'')],
                      dbError = JNull\<rparr>\<rparr>"

text \<open>A world whose store rejects the update.\<close>

definition store_down :: world where
  "store_down = quiet\<lparr>db_update := Throws ''fetch failed''\<rparr>"

text \<open>
  A world after a restart: the in-process store is empty, the persistent store holds
  the order under the reference id uuid-1, and an update keyed by another reference
  id matches no row.
\<close>

definition order_row :: jsval where
  "order_row =
     JObj [(''id'', JNum 7), (''reference_id'', JStr ''uuid-1''),
           (''external_id'', JStr ''ORDER-1''), (''payment_status'', JStr ''PENDING''),
           (''created_at'', JStr ''2025-12-31T23:59:00.000Z'')]"

definition restarted :: world where
  "restarted =
     quiet\<lparr>db_select := Returns \<lparr>data = order_row, dbError = JNull\<rparr>,
           db_update := Returns \<lparr>data = JNull,
                                  dbError = JObj [(''code'', JStr ''PGRST116'')]\<rparr>\<rparr>"

text \<open>A callback with the header \<^verbatim>\<open>X-Reference-Id\<close> and the body \<^verbatim>\<open>{status}\<close>.\<close>

definition callback_for :: "string \<Rightarrow> string \<Rightarrow> request" where
  "callback_for ref status =
     \<lparr>x_reference_id = Some ref, x_momo_signature = None, body = [(''status'', JStr status)]\<rparr>"

text \<open>
  The callback of the specification's scenario: no header, the order's external id,
  SUCCESSFUL; and callbacks that carry a signature header of 64 characters.
\<close>

definition scenario_callback :: request where
  "scenario_callback =
     \<lparr>x_reference_id = None, x_momo_signature = None,
      body = [(''externalId'', JStr ''ORDER-1''), (''status'', JStr ''SUCCESSFUL''),
              (''financialTransactionId'', JStr ''FT1'')]\<rparr>"

definition signed_callback :: request where
  "signed_callback =
     \<lparr>x_reference_id = Some ''ref-1'', x_momo_signature = Some (replicate 64 (CHR ''f'')),
      body = [(''status'', JStr ''SUCCESSFUL'')]\<rparr>"

definition forged_callback :: request where
  "forged_callback =
     \<lparr>x_reference_id = None, x_momo_signature = Some (replicate 64 (CHR ''a'')),
      body = [(''externalId'', JStr ''ORDER-1''), (''status'', JStr ''SUCCESSFUL''),
              (''financialTransactionId'', JStr ''FT1'')]\<rparr>"

text \<open>
  The updates sent to the persistent store: the reference id each is keyed by and
  the payment status it writes.
\<close>

fun status_updates :: "effect list \<Rightarrow> (jsval \<times> jsval) list" where
  "status_updates [] = []"
| "status_updates (DbUpdate updateData ref # effs) =
     (ref, get updateData ''payment_status'') # status_updates effs"
| "status_updates (e # effs) = status_updates effs"

text \<open>
  The answers of the route when an error is caught, when the signature is rejected
  and when no identifier is found.
\<close>

definition catch_answer :: "string \<Rightarrow> response" where
  "catch_answer e =
     \<lparr>code = 200,
      json_body = [(''success'', JBool False),
                   (''message'', JStr ''Callback received but processing failed''),
                   (''error'', JStr e)]\<rparr>"


definition answer_401 :: response where
  "answer_401 =
     \<lparr>code = 401,
      json_body = [(''success'', JBool False), (''message'', JStr ''Invalid signature'')]\<rparr>"

definition answer_400 :: response where
  "answer_400 =
     \<lparr>code = 400,
      json_body =
        [(''success'', JBool False),
         (''message'', JStr ''Reference ID, External ID, or Financial Transaction ID is required'')]\<rparr>"

text \<open>The hooks of a terminal transition, as tests on an effect.\<close>

definition success_hooks :: "(effect \<Rightarrow> bool) list" where
  "success_hooks = [is_SendConfirmationEmail, is_UpdateInventory, is_AwardLoyaltyPoints,
                    is_TriggerOrderFulfillment]"

definition failure_hooks :: "(effect \<Rightarrow> bool) list" where
  "failure_hooks = [is_SendFailureNotification, is_LogFailedTransaction]"

text \<open>
  A pay request as the pay route builds it, the constants of the deployment guide,
  and a payment network that accepts the request.
\<close>

definition example_details :: details where
  "example_details =
     \<lparr>amount = JNum 100, currency = JStr ''LRD'', process_id = JStr ''ORDER-1'',
      phone_no = JStr ''231770123456'', message = JStr ''Payment for order''\<rparr>"

definition example_momo_config :: momo_config where
  "example_momo_config =
     \<lparr>MOMO_BASE_URL = ''https://proxy.momoapi.mtn.com'', MOMO_SUBSCRIPTION_KEY = JStr ''key'',
      MOMO_ENVIRONMENT = ''mtnliberia'',
      CALLBACK_URL = ''https://www.litwaypicks.com/api/momo/callback''\<rparr>"

definition accepting :: network where
  "accepting =
     \<lparr>uuidv4 = ''uuid-1'', getAccessToken = Returns ''Bearer t'',
      getAccountBalance = Returns (JObj [(''availableBalance'', JStr ''1000''), (''currency'', JStr ''USD'')]),
      axios_post = Returns (202, JStr ''''),
      fetchTransactionDetails = JObj [(''status'', JStr ''PENDING'')]\<rparr>"

text \<open>
  A status request for an order the persistent store holds as PENDING while the
  payment network returns nothing; and the status code an outcome of the \<^verbatim>\<open>try\<close>
  block is answered with.
\<close>

definition pending_in_store :: status_world where
  "pending_in_store =
     \<lparr>uuidv4 = ''uuid-2'', getAccessToken = Returns ''Bearer t'',
      getAccountBalance = Returns JNull, axios_post = Returns (202, JNull),
      fetchTransactionDetails = JNull,
      db_lookup = Returns \<lparr>data = order_row, dbError = JNull\<rparr>,
      db_write = Returns \<lparr>data = JNull, dbError = JNull\<rparr>,
      clock = ''2026-01-01T00:00:00.000Z''\<rparr>"

definition answer_code :: "(string + response) \<Rightarrow> nat" where
  "answer_code r = (case r of Inl e \<Rightarrow> 500 | Inr res \<Rightarrow> code res)"


section \<open>Properties of the phone normalisation\<close>

lemma digits_only_all: "\<forall>c \<in> set (digits_only s). is_digit c"
  by (simp add: digits_only_def)

lemma strip_plus_subset: "set (strip_plus s) \<subseteq> set s"
  by (cases s) auto

lemma strip_zeros_subset: "set (strip_zeros s) \<subseteq> set s"
  unfolding strip_zeros_def by (rule set_dropWhileD [THEN subsetI])

lemma normalizePhone_digits: "\<forall>c \<in> set (normalizePhone phone). is_digit c"
proof -
  let ?f = "strip_zeros (strip_plus (digits_only phone))"
  have "set ?f \<subseteq> set (digits_only phone)"
    using strip_zeros_subset strip_plus_subset by blast
  with digits_only_all [of phone] have a: "\<forall>c \<in> set ?f. is_digit c"
    by blast
  then have b: "\<forall>c \<in> set (''231'' @ ?f). is_digit c"
    by (auto simp: is_digit_def)
  show ?thesis
    by (cases "startsWith ?f ''231''") (use a b in \<open>simp_all add: normalizePhone_def\<close>)
qed

lemma normalizePhone_prefix: "take 3 (normalizePhone phone) = ''231''"
  by (simp add: normalizePhone_def Let_def startsWith_def numeral_3_eq_3)

text \<open>
  Claim C8. For every non-empty phone string the formatter either succeeds with
  exactly 12 digits that begin with the country prefix 231, or fails (and the route
  answers 400) because the normalised length is not 12; and the input 0770123456 is
  normalised to 231770123456.
\<close>

theorem formatLiberianPhone_result:
  "phone \<noteq> [] \<Longrightarrow>
     (case formatLiberianPhone phone of
        Inr p \<Rightarrow> length p = 12 \<and> take 3 p = ''231'' \<and> (\<forall>c \<in> set p. is_digit c)
              \<and> pay_validation (JStr phone) amt
                  = (if truthy amt then Inr p
                     else Inl (400, ''Missing required fields: phone and amount are required''))
      | Inl err \<Rightarrow> length (normalizePhone phone) \<noteq> 12
              \<and> pay_validation (JStr phone) amt
                  = Inl (400, if truthy amt then err
                     else ''Missing required fields: phone and amount are required''))
     \<and> formatLiberianPhone ''0770123456'' = Inr ''231770123456''"
proof -
  assume ne: "phone \<noteq> []"
  have ex: "formatLiberianPhone ''0770123456'' = Inr ''231770123456''"
    by (simp add: formatLiberianPhone_def normalizePhone_def digits_only_def is_digit_def
        strip_zeros_def startsWith_def)
  show ?thesis
  proof (cases "length (normalizePhone phone) = 12")
    case True
    then have "formatLiberianPhone phone = Inr (normalizePhone phone)"
      using ne by (simp add: formatLiberianPhone_def Let_def)
    with True ne normalizePhone_digits [of phone] normalizePhone_prefix [of phone] ex
    show ?thesis by (simp add: pay_validation_def)
  next
    case False
    then have "formatLiberianPhone phone =
        Inl (''Invalid Liberia MSISDN: '' @ normalizePhone phone @
             ''. Must be 12 digits (231 + 9-digit number)'')"
      using ne by (simp add: formatLiberianPhone_def Let_def)
    with False ne ex show ?thesis by (simp add: pay_validation_def)
  qed
qed

theorem formatLiberianPhone_result_witness:
  "formatLiberianPhone ''+231-770-123-456'' = Inr ''231770123456''
   \<and> pay_validation (JStr ''+231-770-123-456'') (JNum 100) = Inr ''231770123456''
   \<and> formatLiberianPhone ''0770123456'' = Inr ''231770123456''"
proof -
  have e: "formatLiberianPhone ''+231-770-123-456'' = Inr ''231770123456''"
    by (simp add: formatLiberianPhone_def normalizePhone_def digits_only_def is_digit_def
        strip_zeros_def startsWith_def)
  have ne: "''+231-770-123-456'' \<noteq> []"
    by simp
  show ?thesis
    using formatLiberianPhone_result [OF ne, of "JNum 100"] by (simp add: e)
qed

section \<open>Objects and the merge\<close>

lemma get_update: "get (AList.update k v ob) f = (if f = k then v else get ob f)"
  by (simp add: get_def update_conv')

lemma get_assign_other: "f \<notin> fst ` set kvs \<Longrightarrow> get (assign ob kvs) f = get ob f"
  by (induction kvs arbitrary: ob) (auto simp: get_update)

lemma get_assign_distinct:
  "distinct (map fst kvs) \<Longrightarrow>
     get (assign ob kvs) f = (case map_of kvs f of Some v \<Rightarrow> v | None \<Rightarrow> get ob f)"
proof (induction kvs arbitrary: ob)
  case Nil
  then show ?case by simp
next
  case (Cons kv kvs)
  obtain k v where kv: "kv = (k, v)" by (cases kv)
  with Cons.prems have nk: "k \<notin> fst ` set kvs" and d: "distinct (map fst kvs)"
    by auto
  show ?case
  proof (cases "f = k")
    case True
    with nk have "map_of kvs f = None"
      by (simp add: map_of_eq_None_iff)
    with True kv Cons.IH [OF d] show ?thesis
      by (simp add: get_update)
  next
    case False
    with kv Cons.IH [OF d] show ?thesis
      by (simp add: get_update split: option.split)
  qed
qed

lemma callback_keys:
  "map fst (callback_fields tid payload ts) =
     [''referenceId'', ''financialTransactionId'', ''externalId'', ''amount'', ''currency'',
      ''status'', ''payer'', ''payerPhone'', ''payerIdType'', ''payeeNote'', ''payerMessage'',
      ''reason'', ''callbackReceivedAt'', ''rawCallbackPayload'']"
  by (simp add: callback_fields_def Let_def)

lemma callback_keys_distinct: "distinct (map fst (callback_fields tid payload ts))"
  unfolding callback_keys by simp

lemma get_merge_callback:
  "get (merge_callback existing tid payload ts) f =
     (case map_of (callback_fields tid payload ts) f of Some v \<Rightarrow> v | None \<Rightarrow> get existing f)"
  unfolding merge_callback_def by (rule get_assign_distinct [OF callback_keys_distinct])

lemma merged_referenceId: "get (merge_callback existing tid payload ts) ''referenceId'' = tid"
  by (simp add: get_merge_callback callback_fields_def Let_def)


section \<open>The answers of POST /callback\<close>

lemma truthy_field [simp]: "truthy (field b k) = truthy (get b k)"
  by (simp add: field_def js_or_def)

lemma no_identifier_iff: "no_identifier req \<longleftrightarrow> \<not> (\<exists>v \<in> set (identifiers req). truthy v)"
  by (auto simp: no_identifier_def identifiers_def referenceId_of_def js_or_def)

lemma transactionId_first:
  "transactionId_of req = (if no_identifier req then JNull else first_truthy (identifiers req))"
  by (simp add: no_identifier_def transactionId_of_def identifiers_def referenceId_of_def
      js_or_def field_def)


lemma process_Inr:
  "fst (callback_process cfg w req st) = Inr r \<Longrightarrow> r = ok_response w req"
  unfolding callback_process_def
  by (simp split: sum.splits prod.splits)

lemma code_ok [simp]: "code (ok_response w req) = 200"
  by (simp add: ok_response_def)

lemma ack_ok [simp]: "acknowledged (ok_response w req)"
  by (simp add: ok_response_def acknowledged_def get_def)

lemma gate_false_iff:
  "signature_gate cfg w req = Inr False \<longleftrightarrow>
     truthy (of_opt (MOMO_CALLBACK_SECRET cfg)) \<and> truthy (of_opt (x_momo_signature req))
     \<and> verifyCallbackSignature (hmac_sha256_hex w) (body req)
          (x_momo_signature req) (MOMO_CALLBACK_SECRET cfg) = Inr False"
  by (auto simp: signature_gate_def)

lemma route_code:
  "code (fst (callback_route cfg w req st)) =
     (if no_identifier req then 400
      else if signature_gate cfg w req = Inr False then 401 else 200)"
proof (cases "callback_process cfg w req st")
  case (fields r st' eff)
  show ?thesis
  proof (cases r)
    case (Inl e)
    with fields show ?thesis
      by (simp add: callback_route_def callback_try_def split: sum.splits)
  next
    case (Inr res)
    with fields process_Inr [of cfg w req st res] show ?thesis
      by (simp add: callback_route_def callback_try_def split: sum.splits)
  qed
qed

lemma route_400: "no_identifier req \<Longrightarrow> callback_route cfg w req st = (answer_400, st, [])"
  by (simp add: callback_route_def callback_try_def answer_400_def)

lemma route_401:
  "\<not> no_identifier req \<Longrightarrow> signature_gate cfg w req = Inr False \<Longrightarrow>
     callback_route cfg w req st =
       (\<lparr>code = 401, json_body = [(''success'', JBool False),
                                  (''message'', JStr ''Invalid signature'')]\<rparr>, st, [])"
  by (simp add: callback_route_def callback_try_def)

lemma route_gate_throws:
  "\<not> no_identifier req \<Longrightarrow> signature_gate cfg w req = Inl e \<Longrightarrow>
     callback_route cfg w req st =
       (\<lparr>code = 200,
         json_body = [(''success'', JBool False),
                      (''message'', JStr ''Callback received but processing failed''),
                      (''error'', JStr e)]\<rparr>, st, [])"
  by (simp add: callback_route_def callback_try_def)

lemma try_pass:
  "\<not> no_identifier req \<Longrightarrow> signature_gate cfg w req = Inr True \<Longrightarrow>
     callback_try cfg w req st = callback_process cfg w req st"
  by (simp add: callback_try_def)

lemma route_catch:
  "fst (callback_try cfg w req st) = Inl e \<Longrightarrow>
     fst (callback_route cfg w req st) =
       \<lparr>code = 200,
        json_body = [(''success'', JBool False),
                     (''message'', JStr ''Callback received but processing failed''),
                     (''error'', JStr e)]\<rparr>"
  by (cases "callback_try cfg w req st") (simp add: callback_route_def)

lemma route_process_Inr:
  "\<not> no_identifier req \<Longrightarrow> signature_gate cfg w req = Inr True \<Longrightarrow>
   callback_process cfg w req st = (Inr r, st', eff) \<Longrightarrow>
     callback_route cfg w req st = (ok_response w req, st', eff)"
  using process_Inr [of cfg w req st r]
  by (simp add: callback_route_def try_pass)

lemma route_process_Inl:
  "\<not> no_identifier req \<Longrightarrow> signature_gate cfg w req = Inr True \<Longrightarrow>
   callback_process cfg w req st = (Inl e, st', eff) \<Longrightarrow>
     callback_route cfg w req st =
       (\<lparr>code = 200,
         json_body = [(''success'', JBool False),
                      (''message'', JStr ''Callback received but processing failed''),
                      (''error'', JStr e)]\<rparr>, st', eff)"
  by (simp add: callback_route_def try_pass)

lemma not_ack_simps [simp]:
  "\<not> acknowledged answer_400"
  "\<not> acknowledged \<lparr>code = c, json_body = (''success'', JBool False) # rest\<rparr>"
  by (simp_all add: acknowledged_def answer_400_def get_def)

text \<open>The complete case analysis of the route.\<close>

lemma route_cases:
  obtains (no_id) "no_identifier req" "callback_route cfg w req st = (answer_400, st, [])"
  | (rejected) "\<not> no_identifier req" "signature_gate cfg w req = Inr False"
      "code (fst (callback_route cfg w req st)) = 401"
      "\<not> acknowledged (fst (callback_route cfg w req st))"
      "snd (callback_route cfg w req st) = (st, [])"
  | (gate_throws) e where "\<not> no_identifier req" "signature_gate cfg w req = Inl e"
      "\<not> acknowledged (fst (callback_route cfg w req st))"
      "snd (callback_route cfg w req st) = (st, [])"
  | (thrown) e st' eff where "\<not> no_identifier req" "signature_gate cfg w req = Inr True"
      "callback_process cfg w req st = (Inl e, st', eff)"
      "\<not> acknowledged (fst (callback_route cfg w req st))"
      "snd (callback_route cfg w req st) = (st', eff)"
  | (processed) r st' eff where "\<not> no_identifier req" "signature_gate cfg w req = Inr True"
      "callback_process cfg w req st = (Inr r, st', eff)"
      "callback_route cfg w req st = (ok_response w req, st', eff)"
proof (cases "no_identifier req")
  case True
  then show ?thesis using no_id route_400 by blast
next
  case nid: False
  show ?thesis
  proof (cases "signature_gate cfg w req")
    case (Inl e)
    with nid route_gate_throws [of req cfg w e st] gate_throws show ?thesis
      by simp
  next
    case (Inr b)
    show ?thesis
    proof (cases b)
      case False
      with Inr nid route_401 [of req cfg w st] rejected show ?thesis
        by simp
    next
      case True
      with Inr have g: "signature_gate cfg w req = Inr True" by simp
      obtain r st' eff where p: "callback_process cfg w req st = (r, st', eff)"
        by (cases "callback_process cfg w req st")
      show ?thesis
      proof (cases r)
        case (Inl e)
        with p nid g route_process_Inl [of req cfg w st e st' eff] thrown show ?thesis
          by simp
      next
        case (Inr res)
        with p nid g route_process_Inr [of req cfg w st res st' eff] processed show ?thesis
          by simp
      qed
    qed
  qed
qed

lemma stored_status_set:
  "\<not> is_reference k \<Longrightarrow> stored_status (store_set st k v) k = get v ''status''"
  by (simp add: stored_status_def store_get_def store_set_def)

lemma pending_result:
  "processPendingPayment cfg w td st = (Inr r, st', eff) \<Longrightarrow>
     st' = store_set st (get td ''referenceId'')
             (assign td [(''status'', JStr ''PENDING''), (''lastUpdated'', JStr (now w))])"
  by (auto simp: processPendingPayment_def Let_def split: if_splits outcome.splits)

lemma process_pending:
  assumes "field (body req) ''status'' = JStr ''PENDING''
           \<or> field (body req) ''status'' = JStr ''CREATED''"
    and "callback_process cfg w req st = (Inr r, st', eff)"
    and "\<not> is_reference (transactionId_of req)"
  shows "stored_status st' (transactionId_of req) = JStr ''PENDING''"
proof -
  obtain l effl where l: "lookup_transaction cfg w req st = (l, effl)"
    by (cases "lookup_transaction cfg w req st")
  with assms(2) obtain existing where ex: "l = Inr existing"
    by (cases l) (simp_all add: callback_process_def)
  let ?td = "merge_callback existing (transactionId_of req) (body req) (now w)"
  obtain r' st'' eff' where d: "processPendingPayment cfg w ?td st = (r', st'', eff')"
    by (cases "processPendingPayment cfg w ?td st")
  from assms(1) have disp: "dispatch cfg w (field (body req) ''status'') (field (body req) ''reason'')
      (transactionId_of req) ?td st = processPendingPayment cfg w ?td st"
    by (auto simp: dispatch_def)
  from assms(2) l ex d disp obtain res where r': "r' = Inr res" and st: "st'' = st'"
    by (cases r') (simp_all add: callback_process_def Let_def)
  from pending_result [OF d [unfolded r' st]] assms(3) show ?thesis
    by (simp add: merged_referenceId stored_status_set get_update)
qed

lemma deliver_snoc:
  "deliver cfg st (ds @ [(w, req)]) =
     (case deliver cfg st ds of
        (st1, ress, effs) \<Rightarrow>
          (case callback_route cfg w req st1 of
             (res, st2, eff) \<Rightarrow> (st2, ress @ [res], effs @ eff)))"
proof (induction ds arbitrary: st)
  case Nil
  show ?case by (simp split: prod.splits)
next
  case (Cons d ds)
  obtain w' req' where d: "d = (w', req')" by (cases d)
  show ?case
    by (simp add: d Cons.IH split: prod.splits)
qed

lemma route_pending:
  assumes st: "field (body req) ''status'' = JStr ''PENDING''
           \<or> field (body req) ''status'' = JStr ''CREATED''"
    and ack: "acknowledged (fst (callback_route cfg w req st))"
    and prim: "\<not> is_reference (transactionId_of req)"
  shows "stored_status (fst (snd (callback_route cfg w req st))) (transactionId_of req)
           = JStr ''PENDING''"
proof (cases rule: route_cases [of req cfg w st])
  case no_id
  with ack show ?thesis by simp
next
  case rejected
  with ack show ?thesis by simp
next
  case (gate_throws e)
  with ack show ?thesis by simp
next
  case (thrown e st' eff)
  with ack show ?thesis by simp
next
  case (processed r st' eff)
  with process_pending [OF st processed(3) prim] show ?thesis by simp
qed


section \<open>Updates sent to the persistent store\<close>

lemma status_updates_append [simp]:
  "status_updates (xs @ ys) = status_updates xs @ status_updates ys"
  by (induction xs rule: status_updates.induct) simp_all

lemma pending_update:
  "supabase cfg \<Longrightarrow> processPendingPayment cfg w td st = (r, st', eff) \<Longrightarrow>
     (get td ''referenceId'', JStr ''PENDING'') \<in> set (status_updates eff)"
  by (auto simp: processPendingPayment_def Let_def get_def split: if_splits outcome.splits)

lemma process_pending_update:
  assumes "field (body req) ''status'' = JStr ''PENDING''
           \<or> field (body req) ''status'' = JStr ''CREATED''"
    and "callback_process cfg w req st = (Inr r, st', eff)"
    and "supabase cfg"
  shows "(transactionId_of req, JStr ''PENDING'') \<in> set (status_updates eff)"
proof -
  obtain l effl where l: "lookup_transaction cfg w req st = (l, effl)"
    by (cases "lookup_transaction cfg w req st")
  with assms(2) obtain existing where ex: "l = Inr existing"
    by (cases l) (simp_all add: callback_process_def)
  let ?td = "merge_callback existing (transactionId_of req) (body req) (now w)"
  obtain r' st'' eff' where d: "processPendingPayment cfg w ?td st = (r', st'', eff')"
    by (cases "processPendingPayment cfg w ?td st")
  from assms(1) have disp: "dispatch cfg w (field (body req) ''status'') (field (body req) ''reason'')
      (transactionId_of req) ?td st = processPendingPayment cfg w ?td st"
    by (auto simp: dispatch_def)
  from assms(2) l ex d disp have "eff = effl @ eff'"
    by (cases r') (simp_all add: callback_process_def Let_def)
  with pending_update [OF assms(3) d] show ?thesis
    by (simp add: merged_referenceId)
qed

lemma route_pending_update:
  assumes st: "field (body req) ''status'' = JStr ''PENDING''
           \<or> field (body req) ''status'' = JStr ''CREATED''"
    and ack: "acknowledged (fst (callback_route cfg w req st))"
    and db: "supabase cfg"
  shows "(transactionId_of req, JStr ''PENDING'')
           \<in> set (status_updates (snd (snd (callback_route cfg w req st))))"
proof (cases rule: route_cases [of req cfg w st])
  case (processed r st' eff)
  with process_pending_update [OF st processed(3) db] show ?thesis by simp
qed (use ack in simp_all)


section \<open>Side-effect hooks\<close>

lemma fired_append [simp]: "fired h (xs @ ys) = fired h xs + fired h ys"
  by (simp add: fired_def)

lemma fired_Nil [simp]: "fired h [] = 0"
  by (simp add: fired_def)

lemma lookup_fires_nothing:
  "h \<in> set success_hooks \<union> set failure_hooks \<Longrightarrow>
     fired h (snd (lookup_transaction cfg w req st)) = 0"
  by (auto simp: lookup_transaction_def Let_def fired_def success_hooks_def failure_hooks_def
      split: option.splits outcome.splits)

lemma success_fires:
  "h \<in> set success_hooks \<Longrightarrow> processSuccessfulPayment cfg w td st = (r, st', eff) \<Longrightarrow>
     fired h eff = (case r of Inl e \<Rightarrow> 0 | Inr v \<Rightarrow> 1)"
  by (auto simp: processSuccessfulPayment_def Let_def fired_def success_hooks_def
      split: if_splits outcome.splits)

lemma failure_fires:
  "h \<in> set failure_hooks \<Longrightarrow> processFailedPayment cfg w td reason st = (r, st', eff) \<Longrightarrow>
     fired h eff = (case r of Inl e \<Rightarrow> 0 | Inr v \<Rightarrow> 1)"
  by (auto simp: processFailedPayment_def Let_def fired_def failure_hooks_def
      split: if_splits outcome.splits)

lemma process_fires:
  assumes "(h \<in> set success_hooks \<and> field (body req) ''status'' = JStr ''SUCCESSFUL'')
           \<or> (h \<in> set failure_hooks \<and> field (body req) ''status'' = JStr ''FAILED'')"
    and p: "callback_process cfg w req st = (r, st', eff)"
  shows "fired h eff = (case r of Inl e \<Rightarrow> 0 | Inr v \<Rightarrow> 1)"
proof -
  from assms(1) have hh: "h \<in> set success_hooks \<union> set failure_hooks"
    by auto
  obtain l effl where l: "lookup_transaction cfg w req st = (l, effl)"
    by (cases "lookup_transaction cfg w req st")
  with lookup_fires_nothing [OF hh, of cfg w req st] have z: "fired h effl = 0"
    by simp
  show ?thesis
  proof (cases l)
    case (Inl e)
    with l p z show ?thesis
      by (auto simp: callback_process_def)
  next
    case (Inr existing)
    let ?td = "merge_callback existing (transactionId_of req) (body req) (now w)"
    let ?d = "dispatch cfg w (field (body req) ''status'') (field (body req) ''reason'')
      (transactionId_of req) ?td st"
    obtain r' st'' eff' where d: "?d = (r', st'', eff')"
      by (cases ?d)
    from assms(1) have "fired h eff' = (case r' of Inl e \<Rightarrow> 0 | Inr v \<Rightarrow> 1)"
    proof
      assume a: "h \<in> set success_hooks \<and> field (body req) ''status'' = JStr ''SUCCESSFUL''"
      with d have "processSuccessfulPayment cfg w ?td st = (r', st'', eff')"
        by (simp add: dispatch_def)
      with a success_fires show ?thesis by blast
    next
      assume a: "h \<in> set failure_hooks \<and> field (body req) ''status'' = JStr ''FAILED''"
      with d have "processFailedPayment cfg w ?td (field (body req) ''reason'') st = (r', st'', eff')"
        by (simp add: dispatch_def)
      with a failure_fires show ?thesis by blast
    qed
    with l Inr d p z show ?thesis
      by (cases r') (auto simp: callback_process_def Let_def)
  qed
qed

lemma route_fires:
  assumes "(h \<in> set success_hooks \<and> field (body req) ''status'' = JStr ''SUCCESSFUL'')
           \<or> (h \<in> set failure_hooks \<and> field (body req) ''status'' = JStr ''FAILED'')"
    and r: "callback_route cfg w req st = (res, st', eff)"
  shows "fired h eff = (if acknowledged res then 1 else 0)"
proof (cases rule: route_cases [of req cfg w st])
  case no_id
  with r show ?thesis by simp
next
  case rejected
  with r show ?thesis by simp
next
  case (gate_throws e)
  with r show ?thesis by simp
next
  case (thrown e st1 eff1)
  with r process_fires [OF assms(1) thrown(3)] show ?thesis by simp
next
  case (processed r1 st1 eff1)
  with r process_fires [OF assms(1) processed(3)] ack_ok [of w req] show ?thesis by auto
qed

lemma deliver_fires:
  assumes "h \<in> set success_hooks \<and> (\<forall>d \<in> set ds. field (body (snd d)) ''status'' = JStr ''SUCCESSFUL'')
           \<or> h \<in> set failure_hooks \<and> (\<forall>d \<in> set ds. field (body (snd d)) ''status'' = JStr ''FAILED'')"
    and "deliver cfg st ds = (st', ress, effs)"
  shows "fired h effs = length (filter acknowledged ress)"
  using assms
proof (induction ds arbitrary: st st' ress effs)
  case Nil
  then show ?case by simp
next
  case (Cons d ds)
  obtain w req where d: "d = (w, req)" by (cases d)
  obtain res st1 eff where r: "callback_route cfg w req st = (res, st1, eff)"
    by (cases "callback_route cfg w req st")
  obtain st2 ress2 effs2 where t: "deliver cfg st1 ds = (st2, ress2, effs2)"
    by (cases "deliver cfg st1 ds")
  from Cons.prems(1) d
  have here: "(h \<in> set success_hooks \<and> field (body req) ''status'' = JStr ''SUCCESSFUL'')
           \<or> (h \<in> set failure_hooks \<and> field (body req) ''status'' = JStr ''FAILED'')"
    and rest: "h \<in> set success_hooks \<and> (\<forall>d \<in> set ds. field (body (snd d)) ''status'' = JStr ''SUCCESSFUL'')
           \<or> h \<in> set failure_hooks \<and> (\<forall>d \<in> set ds. field (body (snd d)) ''status'' = JStr ''FAILED'')"
    by auto
  from Cons.IH [OF rest t] route_fires [OF here r] Cons.prems(2) d r t show ?case
    by auto
qed

section \<open>Identifiers, errors and the signature\<close>

lemma lookup_hit:
  "store_get st (transactionId_of req) = Some td \<Longrightarrow>
     lookup_transaction cfg w req st = (Inr td, [])"
  by (simp add: lookup_transaction_def Let_def)


lemma update_throws:
  assumes "supabase cfg" and "db_update w = Throws e"
    and "status \<in> {JStr ''SUCCESSFUL'', JStr ''FAILED'', JStr ''PENDING'', JStr ''CREATED''}"
  shows "fst (dispatch cfg w status reason tid td st) = Inl e"
  using assms
  by (auto simp: dispatch_def processSuccessfulPayment_def processFailedPayment_def
      processPendingPayment_def Let_def)

lemma process_update_throws:
  assumes "supabase cfg" and "db_update w = Throws e"
    and "field (body req) ''status'' \<in> {JStr ''SUCCESSFUL'', JStr ''FAILED'', JStr ''PENDING'', JStr ''CREATED''}"
    and "fst (lookup_transaction cfg w req st) = Inr existing"
  shows "fst (callback_process cfg w req st) = Inl e"
proof -
  obtain effl where l: "lookup_transaction cfg w req st = (Inr existing, effl)"
    using assms(4) by (cases "lookup_transaction cfg w req st") simp
  let ?d = "dispatch cfg w (field (body req) ''status'') (field (body req) ''reason'')
      (transactionId_of req) (merge_callback existing (transactionId_of req) (body req) (now w)) st"
  obtain r' st' eff' where d: "?d = (r', st', eff')"
    by (cases ?d)
  with update_throws [OF assms(1,2,3)] have "r' = Inl e"
    by (metis fst_conv)
  with l d show ?thesis
    by (simp add: callback_process_def Let_def)
qed

lemma process_select_throws:
  assumes "supabase cfg" and "db_select w = Throws e"
    and "store_get st (transactionId_of req) = None"
  shows "fst (callback_process cfg w req st) = Inl e"
  using assms by (simp add: callback_process_def lookup_transaction_def Let_def)


lemma handlers_ignore_digest:
  "processSuccessfulPayment cfg (w\<lparr>hmac_sha256_hex := h\<rparr>) td st
     = processSuccessfulPayment cfg w td st"
  "processFailedPayment cfg (w\<lparr>hmac_sha256_hex := h\<rparr>) td reason st
     = processFailedPayment cfg w td reason st"
  "processPendingPayment cfg (w\<lparr>hmac_sha256_hex := h\<rparr>) td st
     = processPendingPayment cfg w td st"
  by (cases "db_update w";
      simp add: processSuccessfulPayment_def processFailedPayment_def
        processPendingPayment_def Let_def)+

lemma ids_ignore_signature:
  "transactionId_of (req\<lparr>x_momo_signature := s\<rparr>) = transactionId_of req"
  "no_identifier (req\<lparr>x_momo_signature := s\<rparr>) = no_identifier req"
  by (simp_all add: transactionId_of_def no_identifier_def referenceId_of_def)

lemma lookup_ignores_signature:
  "lookup_transaction cfg (w\<lparr>hmac_sha256_hex := h\<rparr>) (req\<lparr>x_momo_signature := s\<rparr>) st
     = lookup_transaction cfg w req st"
  by (cases "store_get st (transactionId_of req)"; cases "db_select w")
    (simp_all add: lookup_transaction_def ids_ignore_signature Let_def)

lemma process_ignores_signature:
  "callback_process cfg (w\<lparr>hmac_sha256_hex := h\<rparr>) (req\<lparr>x_momo_signature := s\<rparr>) st
     = callback_process cfg w req st"
proof -
  have d: "dispatch cfg (w\<lparr>hmac_sha256_hex := h\<rparr>) status reason tid td st
             = dispatch cfg w status reason tid td st" for status reason tid td
    by (simp add: dispatch_def handlers_ignore_digest)
  have o: "ok_response (w\<lparr>hmac_sha256_hex := h\<rparr>) (req\<lparr>x_momo_signature := s\<rparr>)
             = ok_response w req"
    by (simp add: ok_response_def ids_ignore_signature)
  obtain l effl where l: "lookup_transaction cfg w req st = (l, effl)"
    by (cases "lookup_transaction cfg w req st")
  show ?thesis
  proof (cases l)
    case (Inl e)
    with l show ?thesis
      by (simp add: callback_process_def lookup_ignores_signature)
  next
    case (Inr existing)
    with l show ?thesis
      by (simp add: callback_process_def lookup_ignores_signature ids_ignore_signature d o
          Let_def split: prod.split sum.split)
  qed
qed


section \<open>The key of the record and the exact answer\<close>

lemma rejected_iff: "signature_rejected cfg w req \<longleftrightarrow> signature_gate cfg w req = Inr False"
  by (simp add: signature_rejected_def gate_false_iff)

lemma lookup_sends_no_update: "status_updates (snd (lookup_transaction cfg w req st)) = []"
  by (cases "store_get st (transactionId_of req)"; cases "db_select w")
     (simp_all add: lookup_transaction_def Let_def)

lemma success_updates:
  "status_updates (snd (snd (processSuccessfulPayment cfg w td st))) =
     (if supabase cfg then [(get td ''referenceId'', JStr ''SUCCESSFUL'')] else [])"
  by (cases "db_update w") (simp_all add: processSuccessfulPayment_def Let_def get_def)

lemma failed_updates:
  "status_updates (snd (snd (processFailedPayment cfg w td reason st))) =
     (if supabase cfg then [(get td ''referenceId'', JStr ''FAILED'')] else [])"
  by (cases "db_update w") (simp_all add: processFailedPayment_def Let_def get_def)

lemma pending_updates:
  "status_updates (snd (snd (processPendingPayment cfg w td st))) =
     (if supabase cfg then [(get td ''referenceId'', JStr ''PENDING'')] else [])"
  by (cases "db_update w") (simp_all add: processPendingPayment_def Let_def get_def)

lemma success_result:
  "processSuccessfulPayment cfg w td st = (Inr r, st', eff) \<Longrightarrow>
     st' = store_set st (get td ''referenceId'')
             (assign td [(''status'', JStr ''SUCCESSFUL''), (''processedAt'', JStr (now w))])"
  by (cases "db_update w")
     (auto simp: processSuccessfulPayment_def Let_def split: if_splits)

lemma failed_result:
  "processFailedPayment cfg w td reason st = (Inr r, st', eff) \<Longrightarrow>
     st' = store_set st (get td ''referenceId'')
             (assign td [(''status'', JStr ''FAILED''),
                         (''failureReason'', js_or reason (JStr ''Unknown'')),
                         (''processedAt'', JStr (now w))])"
  by (cases "db_update w")
     (auto simp: processFailedPayment_def Let_def split: if_splits)

lemma dispatch_keys:
  assumes "dispatch cfg w status reason tid td st = (r, st', eff)"
    and "get td ''referenceId'' = tid"
  shows "\<forall>u \<in> set (status_updates eff). fst u = tid"
proof -
  have e: "eff = snd (snd (dispatch cfg w status reason tid td st))"
    using assms(1) by simp
  show ?thesis
    unfolding e using assms(2)
    by (simp add: dispatch_def success_updates failed_updates pending_updates)
qed

lemma dispatch_store:
  assumes d: "dispatch cfg w status reason tid td st = (Inr r, st', eff)"
    and t: "get td ''referenceId'' = tid"
  shows "\<exists>td'. st' = store_set st tid td' \<and> get td' ''referenceId'' = tid"
proof -
  consider (s) "status = JStr ''SUCCESSFUL''"
    | (f) "status \<noteq> JStr ''SUCCESSFUL''" "status = JStr ''FAILED''"
    | (p) "status \<noteq> JStr ''SUCCESSFUL''" "status \<noteq> JStr ''FAILED''"
        "status = JStr ''PENDING'' \<or> status = JStr ''CREATED''"
    | (o) "status \<noteq> JStr ''SUCCESSFUL''" "status \<noteq> JStr ''FAILED''"
        "status \<noteq> JStr ''PENDING''" "status \<noteq> JStr ''CREATED''"
    by blast
  then show ?thesis
  proof cases
    case s
    with d have "processSuccessfulPayment cfg w td st = (Inr r, st', eff)"
      by (simp add: dispatch_def)
    from success_result [OF this] t show ?thesis
      by (auto simp: get_update)
  next
    case f
    with d have "processFailedPayment cfg w td reason st = (Inr r, st', eff)"
      by (simp add: dispatch_def)
    from failed_result [OF this] t show ?thesis
      by (auto simp: get_update)
  next
    case p
    with d have "processPendingPayment cfg w td st = (Inr r, st', eff)"
      by (auto simp: dispatch_def)
    from pending_result [OF this] t show ?thesis
      by (auto simp: get_update)
  next
    case o
    with d t show ?thesis
      by (auto simp: dispatch_def)
  qed
qed

lemma process_keys:
  assumes p: "callback_process cfg w req st = (r, st', eff)"
  shows "\<forall>u \<in> set (status_updates eff). fst u = transactionId_of req"
proof -
  obtain l effl where l: "lookup_transaction cfg w req st = (l, effl)"
    by (cases "lookup_transaction cfg w req st")
  with lookup_sends_no_update [of cfg w req st] have z: "status_updates effl = []"
    by simp
  show ?thesis
  proof (cases l)
    case (Inl e)
    with l p z show ?thesis
      by (auto simp: callback_process_def)
  next
    case (Inr existing)
    let ?td = "merge_callback existing (transactionId_of req) (body req) (now w)"
    let ?d = "dispatch cfg w (field (body req) ''status'') (field (body req) ''reason'')
      (transactionId_of req) ?td st"
    obtain r' st'' eff' where d: "?d = (r', st'', eff')"
      by (cases ?d)
    from dispatch_keys [OF d merged_referenceId]
    have "\<forall>u \<in> set (status_updates eff'). fst u = transactionId_of req" .
    moreover from l Inr d p have "eff = effl @ eff'"
      by (cases r') (auto simp: callback_process_def Let_def)
    ultimately show ?thesis using z by simp
  qed
qed

lemma process_store:
  assumes p: "callback_process cfg w req st = (Inr r, st', eff)"
  shows "\<exists>td'. st' = store_set st (transactionId_of req) td'
              \<and> get td' ''referenceId'' = transactionId_of req"
proof -
  obtain l effl where l: "lookup_transaction cfg w req st = (l, effl)"
    by (cases "lookup_transaction cfg w req st")
  with p obtain existing where ex: "l = Inr existing"
    by (cases l) (simp_all add: callback_process_def)
  let ?td = "merge_callback existing (transactionId_of req) (body req) (now w)"
  let ?d = "dispatch cfg w (field (body req) ''status'') (field (body req) ''reason'')
      (transactionId_of req) ?td st"
  obtain r' st'' eff' where d: "?d = (r', st'', eff')"
    by (cases ?d)
  from p l ex d obtain v where "r' = Inr v" "st'' = st'"
    by (cases r') (simp_all add: callback_process_def Let_def)
  with d dispatch_store [OF _ merged_referenceId] show ?thesis
    by blast
qed

lemma route_keys:
  "\<forall>u \<in> set (status_updates (snd (snd (callback_route cfg w req st)))).
      fst u = transactionId_of req"
proof (cases rule: route_cases [of req cfg w st])
  case (thrown e st' eff)
  with process_keys [OF thrown(3)] show ?thesis by simp
next
  case (processed r st' eff)
  with process_keys [OF processed(3)] show ?thesis by simp
qed simp_all

lemma route_store:
  assumes "acknowledged (fst (callback_route cfg w req st))"
  shows "\<exists>td'. fst (snd (callback_route cfg w req st)) = store_set st (transactionId_of req) td'
              \<and> get td' ''referenceId'' = transactionId_of req"
proof (cases rule: route_cases [of req cfg w st])
  case (processed r st' eff)
  with process_store [OF processed(3)] show ?thesis by simp
qed (use assms in simp_all)

lemma route_code_exact:
  "code (fst (callback_route cfg w req st)) =
     (if \<not> (\<exists>v \<in> set (identifiers req). truthy v) then 400
      else if signature_rejected cfg w req then 401 else 200)"
  by (simp add: route_code no_identifier_iff rejected_iff)

lemma route_rejected:
  "\<exists>v \<in> set (identifiers req). truthy v \<Longrightarrow> signature_rejected cfg w req \<Longrightarrow>
     callback_route cfg w req st = (answer_401, st, [])"
  using route_401 [of req cfg w st]
  by (simp add: no_identifier_iff rejected_iff answer_401_def)

lemma lookup_miss_select:
  "store_get st (transactionId_of req) = None \<Longrightarrow> supabase cfg \<Longrightarrow>
     snd (lookup_transaction cfg w req st)
       = [DbSelectOr (transactionId_of req) (field (body req) ''externalId'')]"
  by (cases "db_select w") (simp_all add: lookup_transaction_def Let_def)


lemma route_ack_iff:
  assumes "\<exists>v \<in> set (identifiers req). truthy v" and "\<not> signature_rejected cfg w req"
  shows "acknowledged (fst (callback_route cfg w req st))
           \<longleftrightarrow> (\<exists>res. fst (callback_try cfg w req st) = Inr res)"
proof (cases rule: route_cases [of req cfg w st])
  case no_id
  with assms show ?thesis by (simp add: no_identifier_iff)
next
  case rejected
  with assms show ?thesis by (simp add: rejected_iff)
next
  case (gate_throws e)
  then show ?thesis by (simp add: callback_try_def)
next
  case (thrown e st' eff)
  then show ?thesis by (simp add: try_pass)
next
  case (processed r st' eff)
  then show ?thesis by (simp add: try_pass)
qed


section \<open>The answers of GET /status\<close>

lemma status_route_code:
  "code (fst (status_route cfg w ref st)) = answer_code (fst (status_try cfg w ref st))"
  by (cases "status_try cfg w ref st" rule: prod_cases3)
     (simp add: status_route_def answer_code_def split: sum.splits)

lemma status_poll_code:
  "answer_code (fst (status_poll cfg w ref st)) =
     (if token_throws w then 500
      else if \<not> at_network w then (if in_cache st ref then 200 else 404)
      else if write_throws cfg w then 500 else 200)"
  by (cases "getAccessToken w"; cases "store_get st (JStr ref)"; cases "db_write w")
     (simp_all add: status_poll_def Let_def token_throws_def at_network_def in_cache_def
       write_throws_def answer_code_def)

lemma status_try_code:
  "answer_code (fst (status_try cfg w ref st)) =
     (if lookup_throws cfg w then 500
      else if in_store_terminal cfg w then 200
      else answer_code (fst (status_poll cfg w ref st)))"
  by (cases "db_lookup w"; cases "status_poll cfg w ref st" rule: prod_cases3)
     (simp_all add: status_try_def lookup_throws_def in_store_terminal_def answer_code_def)

lemma status_code:
  "code (fst (status_route cfg w ref st)) =
     (if lookup_throws cfg w then 500
      else if in_store_terminal cfg w then 200
      else if token_throws w then 500
      else if \<not> at_network w then (if in_cache st ref then 200 else 404)
      else if write_throws cfg w then 500 else 200)"
  by (simp add: status_route_code status_try_code status_poll_code)


section \<open>The claims about the callback handler\<close>

text \<open>
  Claim C1, as amended. The handler has no terminal guard. After any sequence of
  deliveries, a callback that carries the status PENDING or CREATED and is
  acknowledged with \<^verbatim>\<open>success: true\<close> leaves PENDING as the stored status of the
  identifier it resolved to, whatever was stored before (SUCCESSFUL and FAILED
  included): in the in-process store when the identifier is not an object, and,
  when the persistent store is connected, through an update that writes the payment
  status PENDING for that reference id.
\<close>

theorem pending_callback_overwrites_status:
  assumes "deliver cfg st (ds @ [(w, req)]) = (st', ress, effs)"
    and "field (body req) ''status'' = JStr ''PENDING''
         \<or> field (body req) ''status'' = JStr ''CREATED''"
    and "acknowledged (last ress)"
  shows "(\<not> is_reference (transactionId_of req) \<longrightarrow>
            stored_status st' (transactionId_of req) = JStr ''PENDING'')
       \<and> (supabase cfg \<longrightarrow>
            (transactionId_of req, JStr ''PENDING'') \<in> set (status_updates effs))"
proof -
  obtain st1 ress1 effs1 where d: "deliver cfg st ds = (st1, ress1, effs1)"
    by (cases "deliver cfg st ds")
  obtain res st2 eff where r: "callback_route cfg w req st1 = (res, st2, eff)"
    by (cases "callback_route cfg w req st1")
  from assms(1) d r have e: "st' = st2" "ress = ress1 @ [res]" "effs = effs1 @ eff"
    by (simp_all add: deliver_snoc)
  with assms(3) r have a: "acknowledged (fst (callback_route cfg w req st1))"
    by simp
  from route_pending [OF assms(2) a] r e
  have 1: "\<not> is_reference (transactionId_of req) \<longrightarrow>
            stored_status st' (transactionId_of req) = JStr ''PENDING''"
    by simp
  from route_pending_update [OF assms(2) a] r e
  have 2: "supabase cfg \<longrightarrow>
            (transactionId_of req, JStr ''PENDING'') \<in> set (status_updates effs)"
    by simp
  from 1 2 show ?thesis by simp
qed

theorem status_regresses_counterexample:
  "stored_status (fst (deliver online Map.empty [(stored, callback_for ''ref-1'' ''FAILED'')]))
      (JStr ''ref-1'') = JStr ''FAILED''
   \<and> stored_status (fst (deliver online Map.empty
        [(stored, callback_for ''ref-1'' ''FAILED''), (stored, callback_for ''ref-1'' ''CREATED'')]))
      (JStr ''ref-1'') = JStr ''PENDING''
   \<and> status_updates (snd (snd (deliver online Map.empty
        [(stored, callback_for ''ref-1'' ''FAILED''), (stored, callback_for ''ref-1'' ''CREATED'')])))
      = [(JStr ''ref-1'', JStr ''FAILED''), (JStr ''ref-1'', JStr ''PENDING'')]"
  by code_simp

theorem pending_callback_overwrites_status_witness:
  "stored_status (fst (deliver online Map.empty [(stored, callback_for ''ref-1'' ''SUCCESSFUL'')]))
      (JStr ''ref-1'') = JStr ''SUCCESSFUL''
   \<and> stored_status (fst (deliver online Map.empty
        ([(stored, callback_for ''ref-1'' ''SUCCESSFUL'')]
         @ [(stored, callback_for ''ref-1'' ''PENDING'')])))
      (JStr ''ref-1'') = JStr ''PENDING''
   \<and> (JStr ''ref-1'', JStr ''PENDING'')
        \<in> set (status_updates (snd (snd (deliver online Map.empty
             ([(stored, callback_for ''ref-1'' ''SUCCESSFUL'')]
              @ [(stored, callback_for ''ref-1'' ''PENDING'')])))))"
proof -
  let ?ds = "[(stored, callback_for ''ref-1'' ''SUCCESSFUL'')]"
  let ?req = "callback_for ''ref-1'' ''PENDING''"
  obtain st' ress effs where d: "deliver online Map.empty (?ds @ [(stored, ?req)]) = (st', ress, effs)"
    by (cases "deliver online Map.empty (?ds @ [(stored, ?req)])")
  have a: "acknowledged (last (fst (snd (deliver online Map.empty (?ds @ [(stored, ?req)])))))"
    by code_simp
  have s: "field (body ?req) ''status'' = JStr ''PENDING''
         \<or> field (body ?req) ''status'' = JStr ''CREATED''"
    by (simp add: field_def js_or_def get_def callback_for_def)
  have t: "transactionId_of ?req = JStr ''ref-1''"
    by (simp add: transactionId_of_def referenceId_of_def js_or_def callback_for_def)
  have c: "supabase online"
    by (simp add: online_def)
  have b: "stored_status (fst (deliver online Map.empty ?ds)) (JStr ''ref-1'') = JStr ''SUCCESSFUL''"
    by code_simp
  from a d have "acknowledged (last ress)"
    by simp
  from pending_callback_overwrites_status [OF d s this] t c b d show ?thesis
    by simp
qed

text \<open>
  Claim C2, as amended. The handler keeps no record of hooks that already fired.
  Over any sequence of deliveries that all carry SUCCESSFUL, each of the four
  success hooks (confirmation e-mail, inventory, loyalty points, fulfilment) fires
  exactly once for every delivery acknowledged with \<^verbatim>\<open>success: true\<close>, so a callback
  delivered \<open>n\<close> times fires them \<open>n\<close> times; likewise the two failure hooks over
  deliveries that all carry FAILED.
\<close>

theorem hooks_fire_once_per_delivery:
  assumes "deliver cfg st ds = (st', ress, effs)"
  shows "((\<forall>d \<in> set ds. field (body (snd d)) ''status'' = JStr ''SUCCESSFUL'')
            \<longrightarrow> (\<forall>h \<in> set success_hooks. fired h effs = length (filter acknowledged ress)))
       \<and> ((\<forall>d \<in> set ds. field (body (snd d)) ''status'' = JStr ''FAILED'')
            \<longrightarrow> (\<forall>h \<in> set failure_hooks. fired h effs = length (filter acknowledged ress)))"
  using deliver_fires [OF _ assms] by blast

theorem hooks_fire_twice_counterexample:
  "fired is_SendConfirmationEmail (snd (snd (deliver offline Map.empty
      [(quiet, callback_for ''ref-1'' ''SUCCESSFUL''), (quiet, callback_for ''ref-1'' ''SUCCESSFUL'')]))) = 2
   \<and> fired is_AwardLoyaltyPoints (snd (snd (deliver offline Map.empty
      [(quiet, callback_for ''ref-1'' ''SUCCESSFUL''), (quiet, callback_for ''ref-1'' ''SUCCESSFUL'')]))) = 2"
  by code_simp

theorem hooks_fire_once_per_delivery_witness:
  "fired is_TriggerOrderFulfillment (snd (snd (deliver offline Map.empty
      [(quiet, callback_for ''ref-1'' ''SUCCESSFUL''), (quiet, callback_for ''ref-1'' ''SUCCESSFUL''),
       (quiet, callback_for ''ref-1'' ''SUCCESSFUL'')]))) = 3"
proof -
  let ?ds = "[(quiet, callback_for ''ref-1'' ''SUCCESSFUL''), (quiet, callback_for ''ref-1'' ''SUCCESSFUL''),
       (quiet, callback_for ''ref-1'' ''SUCCESSFUL'')]"
  obtain st' ress effs where d: "deliver offline Map.empty ?ds = (st', ress, effs)"
    by (cases "deliver offline Map.empty ?ds")
  have a: "length (filter acknowledged (fst (snd (deliver offline Map.empty ?ds)))) = 3"
    by code_simp
  have s: "\<forall>d \<in> set ?ds. field (body (snd d)) ''status'' = JStr ''SUCCESSFUL''"
    by (simp add: field_def js_or_def get_def callback_for_def)
  have h: "is_TriggerOrderFulfillment \<in> set success_hooks"
    by (simp add: success_hooks_def)
  from hooks_fire_once_per_delivery [OF d] s h
  have "fired is_TriggerOrderFulfillment effs = length (filter acknowledged ress)"
    by blast
  with a d show ?thesis by simp
qed

text \<open>
  Claim C5, as amended. The merge writes every field the callback can carry: each
  of financialTransactionId, externalId, amount, currency, status, payeeNote,
  payerMessage and reason becomes the inbound value, and \<^verbatim>\<open>null\<close> when the inbound
  value is absent or falsy, whatever the existing record held. Only the fields of
  the existing record that the merge does not write keep their values.
\<close>

theorem merge_overwrites:
  "(\<forall>f \<in> set [''financialTransactionId'', ''externalId'', ''amount'', ''currency'', ''status'',
               ''payeeNote'', ''payerMessage'', ''reason''].
      get (merge_callback existing tid payload ts) f
        = (if truthy (get payload f) then get payload f else JNull))
   \<and> (\<forall>f. f \<notin> set [''referenceId'', ''financialTransactionId'', ''externalId'', ''amount'',
                    ''currency'', ''status'', ''payer'', ''payerPhone'', ''payerIdType'',
                    ''payeeNote'', ''payerMessage'', ''reason'', ''callbackReceivedAt'',
                    ''rawCallbackPayload'']
        \<longrightarrow> get (merge_callback existing tid payload ts) f = get existing f)"
proof (intro conjI ballI allI impI)
  fix f assume "f \<in> set [''financialTransactionId'', ''externalId'', ''amount'', ''currency'', ''status'',
               ''payeeNote'', ''payerMessage'', ''reason'']"
  then have "f = ''financialTransactionId'' \<or> f = ''externalId'' \<or> f = ''amount'' \<or> f = ''currency''
       \<or> f = ''status'' \<or> f = ''payeeNote'' \<or> f = ''payerMessage'' \<or> f = ''reason''"
    by simp
  then show "get (merge_callback existing tid payload ts) f
        = (if truthy (get payload f) then get payload f else JNull)"
    by (elim disjE) (simp_all add: get_merge_callback callback_fields_def Let_def field_def js_or_def)
next
  fix f assume "f \<notin> set [''referenceId'', ''financialTransactionId'', ''externalId'', ''amount'',
                    ''currency'', ''status'', ''payer'', ''payerPhone'', ''payerIdType'',
                    ''payeeNote'', ''payerMessage'', ''reason'', ''callbackReceivedAt'',
                    ''rawCallbackPayload'']"
  then have "f \<notin> fst ` set (callback_fields tid payload ts)"
    unfolding set_map [symmetric] callback_keys .
  then show "get (merge_callback existing tid payload ts) f = get existing f"
    unfolding merge_callback_def by (rule get_assign_other)
qed

theorem merge_nulls_field_counterexample:
  "get [(''referenceId'', JStr ''ref-1''), (''financialTransactionId'', JStr ''FT1''),
        (''status'', JStr ''SUCCESSFUL'')] ''financialTransactionId'' = JStr ''FT1''
   \<and> get [(''status'', JStr ''SUCCESSFUL'')] ''financialTransactionId'' = JUndefined
   \<and> get (merge_callback
             [(''referenceId'', JStr ''ref-1''), (''financialTransactionId'', JStr ''FT1''),
              (''status'', JStr ''SUCCESSFUL'')]
             (JStr ''ref-1'') [(''status'', JStr ''SUCCESSFUL'')] ''2026-01-01T00:00:00.000Z'')
          ''financialTransactionId'' = JNull"
  by code_simp

theorem merge_overwrites_witness:
  "get (merge_callback
          [(''referenceId'', JStr ''ref-1''), (''orderId'', JNum 7), (''amount'', JStr ''100'')]
          (JStr ''ref-1'') [(''status'', JStr ''FAILED'')] ''2026-01-01T00:00:00.000Z'')
       ''amount'' = JNull
   \<and> get (merge_callback
          [(''referenceId'', JStr ''ref-1''), (''orderId'', JNum 7), (''amount'', JStr ''100'')]
          (JStr ''ref-1'') [(''status'', JStr ''FAILED'')] ''2026-01-01T00:00:00.000Z'')
       ''orderId'' = JNum 7"
proof -
  let ?existing = "[(''referenceId'', JStr ''ref-1''), (''orderId'', JNum 7), (''amount'', JStr ''100'')]"
  let ?payload = "[(''status'', JStr ''FAILED'')]"
  note m = merge_overwrites [of ?existing "JStr ''ref-1''" ?payload "''2026-01-01T00:00:00.000Z''"]
  from m have "get (merge_callback ?existing (JStr ''ref-1'') ?payload ''2026-01-01T00:00:00.000Z'') ''amount''
      = (if truthy (get ?payload ''amount'') then get ?payload ''amount'' else JNull)"
    by simp
  moreover from m have "get (merge_callback ?existing (JStr ''ref-1'') ?payload ''2026-01-01T00:00:00.000Z'') ''orderId''
      = get ?existing ''orderId''"
    by simp
  ultimately show ?thesis
    by (simp add: get_def)
qed

text \<open>
  Claim C3, as amended. The identifier the route looks up and keys the transaction
  by is the first truthy one among the header X-Reference-Id and the body's
  referenceId, externalId and financialTransactionId: the in-process store is read
  under it, the select of the persistent store asks for it, every update sent to
  the persistent store is keyed by it, and an acknowledged callback leaves its
  record in the in-process store under it, with it as referenceId. The route
  answers 400 exactly when none of the four is truthy. The 400 is not the only
  refusal: with an identifier the route answers 401 exactly when the callback secret
  and the signature header are both set and the signature check returns false, and
  200 in every other case.
\<close>

theorem callback_identifier_resolution:
  "code (fst (callback_route cfg w req st)) =
     (if \<not> (\<exists>v \<in> set (identifiers req). truthy v) then 400
      else if signature_rejected cfg w req then 401 else 200)
   \<and> ((\<exists>v \<in> set (identifiers req). truthy v) \<longrightarrow>
         transactionId_of req = first_truthy (identifiers req)
         \<and> (\<forall>td. store_get st (first_truthy (identifiers req)) = Some td \<longrightarrow>
                lookup_transaction cfg w req st = (Inr td, []))
         \<and> (store_get st (first_truthy (identifiers req)) = None \<longrightarrow> supabase cfg \<longrightarrow>
                snd (lookup_transaction cfg w req st)
                  = [DbSelectOr (first_truthy (identifiers req)) (field (body req) ''externalId'')])
         \<and> (\<forall>u \<in> set (status_updates (snd (snd (callback_route cfg w req st)))).
                fst u = first_truthy (identifiers req))
         \<and> (acknowledged (fst (callback_route cfg w req st)) \<longrightarrow>
                get (json_body (fst (callback_route cfg w req st))) ''referenceId''
                  = first_truthy (identifiers req)
                \<and> (\<exists>td'. fst (snd (callback_route cfg w req st))
                            = store_set st (first_truthy (identifiers req)) td'
                          \<and> get td' ''referenceId'' = first_truthy (identifiers req))))"
proof (intro conjI impI allI)
  show "code (fst (callback_route cfg w req st)) =
     (if \<not> (\<exists>v \<in> set (identifiers req). truthy v) then 400
      else if signature_rejected cfg w req then 401 else 200)"
    by (rule route_code_exact)
next
  assume "\<exists>v \<in> set (identifiers req). truthy v"
  then show t: "transactionId_of req = first_truthy (identifiers req)"
    by (simp add: transactionId_first no_identifier_iff)
  show "\<forall>u \<in> set (status_updates (snd (snd (callback_route cfg w req st)))).
                fst u = first_truthy (identifiers req)"
    using route_keys [of cfg w req st] t by simp
  {
    fix td assume "store_get st (first_truthy (identifiers req)) = Some td"
    with t show "lookup_transaction cfg w req st = (Inr td, [])"
      by (simp add: lookup_hit)
  }
  {
    assume "store_get st (first_truthy (identifiers req)) = None" "supabase cfg"
    with t lookup_miss_select [of st req cfg w]
    show "snd (lookup_transaction cfg w req st)
                  = [DbSelectOr (first_truthy (identifiers req)) (field (body req) ''externalId'')]"
      by simp
  }
  {
    assume a: "acknowledged (fst (callback_route cfg w req st))"
    show "get (json_body (fst (callback_route cfg w req st))) ''referenceId''
                  = first_truthy (identifiers req)"
    proof (cases rule: route_cases [of req cfg w st])
      case (processed r st' eff)
      then show ?thesis
        by (simp add: ok_response_def get_def t)
    qed (use a in simp_all)
    from route_store [OF a] t
    show "\<exists>td'. fst (snd (callback_route cfg w req st))
                            = store_set st (first_truthy (identifiers req)) td'
                          \<and> get td' ''referenceId'' = first_truthy (identifiers req)"
      by simp
  }
qed

theorem callback_401_counterexample:
  "truthy (of_opt (x_reference_id signed_callback))
   \<and> code (fst (callback_route secured quiet signed_callback Map.empty)) = 401"
  by code_simp

theorem callback_identifier_resolution_witness:
  "code (fst (callback_route offline quiet
       \<lparr>x_reference_id = None, x_momo_signature = None, body = []\<rparr> Map.empty)) = 400
   \<and> transactionId_of forged_callback = JStr ''ORDER-1''
   \<and> code (fst (callback_route secured quiet forged_callback Map.empty)) = 401
   \<and> code (fst (callback_route offline quiet scenario_callback Map.empty)) = 200
   \<and> get (json_body (fst (callback_route offline quiet scenario_callback Map.empty))) ''referenceId''
       = JStr ''ORDER-1''"
proof -
  let ?empty = "\<lparr>x_reference_id = None, x_momo_signature = None, body = []\<rparr>"
  have e: "\<not> (\<exists>v \<in> set (identifiers ?empty). truthy v)"
    by (simp add: identifiers_def get_def)
  have f: "\<exists>v \<in> set (identifiers forged_callback). truthy v"
    by (simp add: identifiers_def get_def forged_callback_def)
  have v: "first_truthy (identifiers forged_callback) = JStr ''ORDER-1''"
    by (simp add: identifiers_def get_def forged_callback_def)
  have r: "signature_rejected secured quiet forged_callback"
    by code_simp
  have s: "\<exists>v \<in> set (identifiers scenario_callback). truthy v"
    by (simp add: identifiers_def get_def scenario_callback_def)
  have sv: "first_truthy (identifiers scenario_callback) = JStr ''ORDER-1''"
    by (simp add: identifiers_def get_def scenario_callback_def)
  have n: "\<not> signature_rejected offline quiet scenario_callback"
    by code_simp
  have a: "acknowledged (fst (callback_route offline quiet scenario_callback Map.empty))"
    by code_simp
  from callback_identifier_resolution [of offline quiet ?empty Map.empty] e
  have 1: "code (fst (callback_route offline quiet ?empty Map.empty)) = 400"
    by simp
  from callback_identifier_resolution [of secured quiet forged_callback Map.empty] f v r
  have 2: "transactionId_of forged_callback = JStr ''ORDER-1''"
    and 3: "code (fst (callback_route secured quiet forged_callback Map.empty)) = 401"
    by simp_all
  from callback_identifier_resolution [of offline quiet scenario_callback Map.empty] s sv n a
  have 4: "code (fst (callback_route offline quiet scenario_callback Map.empty)) = 200"
    and 5: "get (json_body (fst (callback_route offline quiet scenario_callback Map.empty))) ''referenceId''
       = JStr ''ORDER-1''"
    by simp_all
  from 1 2 3 4 5 show ?thesis by simp
qed

text \<open>
  Claim C4, as amended. A callback with at least one truthy identifier is answered
  401, with the store untouched and nothing done, exactly when the callback secret
  and the signature header are both set and the signature check returns false; in
  every other case it is answered 200, whatever throws. Such a 200 answer carries
  \<^verbatim>\<open>success: true\<close> exactly when the \<^verbatim>\<open>try\<close> block ran to its end; an error raised
  inside the block gives the 200 answer with \<^verbatim>\<open>success: false\<close> and the error's
  message, and a rejected update or select of the store is such an error.
\<close>

theorem callback_answers_200:
  assumes ident: "\<exists>v \<in> set (identifiers req). truthy v"
  shows "code (fst (callback_route cfg w req st))
           = (if signature_rejected cfg w req then 401 else 200)
     \<and> (signature_rejected cfg w req \<longrightarrow>
            callback_route cfg w req st = (answer_401, st, []))
     \<and> (\<not> signature_rejected cfg w req \<longrightarrow>
            (acknowledged (fst (callback_route cfg w req st))
               \<longleftrightarrow> (\<exists>res. fst (callback_try cfg w req st) = Inr res)))
     \<and> (\<forall>e. fst (callback_try cfg w req st) = Inl e \<longrightarrow>
            fst (callback_route cfg w req st) = catch_answer e
            \<and> get (json_body (fst (callback_route cfg w req st))) ''success'' = JBool False)
     \<and> (\<forall>e existing. signature_gate cfg w req = Inr True \<longrightarrow> supabase cfg \<longrightarrow>
            db_update w = Throws e \<longrightarrow>
            field (body req) ''status''
              \<in> {JStr ''SUCCESSFUL'', JStr ''FAILED'', JStr ''PENDING'', JStr ''CREATED''} \<longrightarrow>
            fst (lookup_transaction cfg w req st) = Inr existing \<longrightarrow>
            fst (callback_try cfg w req st) = Inl e)
     \<and> (\<forall>e. signature_gate cfg w req = Inr True \<longrightarrow> supabase cfg \<longrightarrow>
            db_select w = Throws e \<longrightarrow> store_get st (transactionId_of req) = None \<longrightarrow>
            fst (callback_try cfg w req st) = Inl e)"
proof -
  from ident have nid: "\<not> no_identifier req"
    by (simp add: no_identifier_iff)
  from ident have 1: "code (fst (callback_route cfg w req st))
           = (if signature_rejected cfg w req then 401 else 200)"
    by (simp add: route_code_exact)
  have 0: "callback_route cfg w req st = (answer_401, st, [])" if "signature_rejected cfg w req"
    using route_rejected [OF ident that] .
  have 5: "acknowledged (fst (callback_route cfg w req st))
               \<longleftrightarrow> (\<exists>res. fst (callback_try cfg w req st) = Inr res)"
    if "\<not> signature_rejected cfg w req"
    using route_ack_iff [OF ident that] .
  have 2: "fst (callback_route cfg w req st) = catch_answer e
            \<and> get (json_body (fst (callback_route cfg w req st))) ''success'' = JBool False"
    if "fst (callback_try cfg w req st) = Inl e" for e
    using route_catch [OF that] by (simp add: catch_answer_def get_def)
  have 3: "fst (callback_try cfg w req st) = Inl e"
    if "signature_gate cfg w req = Inr True" "supabase cfg" "db_update w = Throws e"
      "field (body req) ''status''
              \<in> {JStr ''SUCCESSFUL'', JStr ''FAILED'', JStr ''PENDING'', JStr ''CREATED''}"
      "fst (lookup_transaction cfg w req st) = Inr existing" for e existing
    using process_update_throws [OF that(2,3,4,5)] try_pass [OF nid that(1)] by simp
  have 4: "fst (callback_try cfg w req st) = Inl e"
    if "signature_gate cfg w req = Inr True" "supabase cfg" "db_select w = Throws e"
      "store_get st (transactionId_of req) = None" for e
    using process_select_throws [OF that(2,3,4)] try_pass [OF nid that(1)] by simp
  from 0 1 2 3 4 5 show ?thesis by blast
qed

theorem callback_rejected_counterexample:
  "truthy (get (body forged_callback) ''externalId'')
   \<and> code (fst (callback_route secured quiet forged_callback Map.empty)) = 401"
  by code_simp

theorem callback_answers_200_witness:
  "code (fst (callback_route online store_down (callback_for ''ref-1'' ''SUCCESSFUL'') Map.empty)) = 200
   \<and> fst (callback_route online store_down (callback_for ''ref-1'' ''SUCCESSFUL'') Map.empty)
       = catch_answer ''fetch failed''
   \<and> callback_route secured quiet signed_callback Map.empty = (answer_401, Map.empty, [])"
proof -
  let ?req = "callback_for ''ref-1'' ''SUCCESSFUL''"
  have i: "\<exists>v \<in> set (identifiers ?req). truthy v"
    by (simp add: identifiers_def callback_for_def)
  have s: "\<not> signature_rejected online store_down ?req"
    by code_simp
  have t: "fst (callback_try online store_down ?req Map.empty) = Inl ''fetch failed''"
    by code_simp
  have j: "\<exists>v \<in> set (identifiers signed_callback). truthy v"
    by (simp add: identifiers_def signed_callback_def)
  have r: "signature_rejected secured quiet signed_callback"
    by code_simp
  note th = callback_answers_200 [OF i, of online store_down Map.empty]
  from th [THEN conjunct1] s
  have 1: "code (fst (callback_route online store_down ?req Map.empty)) = 200"
    by simp
  from th t
  have 2: "fst (callback_route online store_down ?req Map.empty) = catch_answer ''fetch failed''"
    by blast
  from callback_answers_200 [OF j, of secured quiet Map.empty] r
  have 3: "callback_route secured quiet signed_callback Map.empty = (answer_401, Map.empty, [])"
    by blast
  from 1 2 3 show ?thesis by simp
qed

text \<open>
  Claim C10. \<^verbatim>\<open>verifyCallbackSignature\<close> accepts when the signature or the secret is
  missing; the route calls it only when both are set, and otherwise goes on to
  process the callback. With no secret configured the answer is never 401 and
  neither the signature header nor the digest has any influence on what the route
  does.
\<close>

theorem signature_check_skipped:
  "(\<not> truthy (of_opt signature) \<or> \<not> truthy (of_opt secret) \<longrightarrow>
       verifyCallbackSignature hmac payload signature secret = Inr True)
   \<and> (\<not> (truthy (of_opt (MOMO_CALLBACK_SECRET cfg)) \<and> truthy (of_opt (x_momo_signature req))) \<longrightarrow>
         signature_gate cfg w req = Inr True
         \<and> callback_try cfg w req st =
             (if no_identifier req then (Inr answer_400, st, [])
              else callback_process cfg w req st))
   \<and> (MOMO_CALLBACK_SECRET cfg = None \<longrightarrow>
         code (fst (callback_route cfg w req st)) \<noteq> 401
         \<and> callback_route cfg (w\<lparr>hmac_sha256_hex := h\<rparr>) (req\<lparr>x_momo_signature := s\<rparr>) st
             = callback_route cfg w req st)"
proof (intro conjI impI)
  assume "\<not> truthy (of_opt signature) \<or> \<not> truthy (of_opt secret)"
  then show "verifyCallbackSignature hmac payload signature secret = Inr True"
    by (auto simp: verifyCallbackSignature_def)
next
  assume a: "\<not> (truthy (of_opt (MOMO_CALLBACK_SECRET cfg)) \<and> truthy (of_opt (x_momo_signature req)))"
  then show g: "signature_gate cfg w req = Inr True"
    by (auto simp: signature_gate_def)
  then show "callback_try cfg w req st =
             (if no_identifier req then (Inr answer_400, st, [])
              else callback_process cfg w req st)"
    by (simp add: callback_try_def answer_400_def)
next
  assume n: "MOMO_CALLBACK_SECRET cfg = None"
  then have g: "signature_gate cfg w' req' = Inr True" for w' req'
    by (simp add: signature_gate_def)
  then show "code (fst (callback_route cfg w req st)) \<noteq> 401"
    by (simp add: route_code)
  have p: "callback_process cfg (w\<lparr>hmac_sha256_hex := h\<rparr>) (req\<lparr>x_momo_signature := s\<rparr>) st
             = callback_process cfg w req st"
    by (rule process_ignores_signature)
  have i: "no_identifier (req\<lparr>x_momo_signature := s\<rparr>) = no_identifier req"
    by (simp add: no_identifier_def referenceId_of_def)
  show "callback_route cfg (w\<lparr>hmac_sha256_hex := h\<rparr>) (req\<lparr>x_momo_signature := s\<rparr>) st
             = callback_route cfg w req st"
    by (simp add: callback_route_def callback_try_def g p i)
qed

theorem signature_check_skipped_witness:
  "verifyCallbackSignature fixed_digest [] None (Some ''s3cret'') = Inr True
   \<and> signature_gate secured quiet (callback_for ''ref-1'' ''SUCCESSFUL'') = Inr True
   \<and> code (fst (callback_route offline quiet forged_callback Map.empty)) \<noteq> 401
   \<and> callback_route offline (quiet\<lparr>hmac_sha256_hex := fixed_digest\<rparr>)
        (forged_callback\<lparr>x_momo_signature := None\<rparr>) Map.empty
       = callback_route offline quiet forged_callback Map.empty"
proof -
  have a: "\<not> truthy (of_opt None) \<or> \<not> truthy (of_opt (Some ''s3cret''))"
    by simp
  have b: "\<not> (truthy (of_opt (MOMO_CALLBACK_SECRET secured))
             \<and> truthy (of_opt (x_momo_signature (callback_for ''ref-1'' ''SUCCESSFUL''))))"
    by (simp add: callback_for_def)
  have c: "MOMO_CALLBACK_SECRET offline = None"
    by (simp add: offline_def)
  from signature_check_skipped [of None "Some ''s3cret''" fixed_digest "[]" secured
      "callback_for ''ref-1'' ''SUCCESSFUL''" quiet Map.empty fixed_digest None] a b
  have 1: "verifyCallbackSignature fixed_digest [] None (Some ''s3cret'') = Inr True"
    and 2: "signature_gate secured quiet (callback_for ''ref-1'' ''SUCCESSFUL'') = Inr True"
    by blast+
  from signature_check_skipped [of None None fixed_digest "[]" offline forged_callback quiet
      Map.empty fixed_digest None] c
  have 3: "code (fst (callback_route offline quiet forged_callback Map.empty)) \<noteq> 401"
    and 4: "callback_route offline (quiet\<lparr>hmac_sha256_hex := fixed_digest\<rparr>)
        (forged_callback\<lparr>x_momo_signature := None\<rparr>) Map.empty
       = callback_route offline quiet forged_callback Map.empty"
    by blast+
  from 1 2 3 4 show ?thesis by simp
qed

text \<open>
  Claim C6, evaluated where the code departs from it. After a restart the order is
  found in the persistent store through its external id; the record built from the
  row carries the order's reference id uuid-1, and the merge then replaces it with
  the identifier the callback resolved to, the external id ORDER-1. The update sent
  to the store is keyed by ORDER-1, and the in-process store files the record under
  ORDER-1, not under uuid-1.
\<close>

theorem callback_by_externalId_replaces_referenceId:
  "fst (lookup_transaction online restarted scenario_callback Map.empty)
     = Inr [(''referenceId'', JStr ''uuid-1''), (''orderId'', JNum 7),
            (''status'', JStr ''PENDING''), (''createdAt'', JStr ''2025-12-31T23:59:00.000Z'')]
   \<and> get (merge_callback
            [(''referenceId'', JStr ''uuid-1''), (''orderId'', JNum 7),
             (''status'', JStr ''PENDING''), (''createdAt'', JStr ''2025-12-31T23:59:00.000Z'')]
            (transactionId_of scenario_callback) (body scenario_callback) (now restarted))
         ''referenceId'' = JStr ''ORDER-1''
   \<and> acknowledged (fst (callback_route online restarted scenario_callback Map.empty))
   \<and> status_updates (snd (snd (callback_route online restarted scenario_callback Map.empty)))
       = [(JStr ''ORDER-1'', JStr ''SUCCESSFUL'')]
   \<and> store_get (fst (snd (callback_route online restarted scenario_callback Map.empty)))
        (JStr ''uuid-1'') = None
   \<and> stored_status (fst (snd (callback_route online restarted scenario_callback Map.empty)))
        (JStr ''ORDER-1'') = JStr ''SUCCESSFUL''"
  by code_simp

section \<open>The claims about requestToPay and GET /status\<close>

text \<open>
  Claim C7, evaluated where the code departs from it. The body built by
  services/momoService.js carries the caller's amount, currency, external id and
  message. For the same details the second \<^verbatim>\<open>requestToPay\<close> posts the amount 1.00,
  the currency USD and a fixed message.
\<close>

theorem requestToPay_bodies_differ:
  "get (requestBody d) ''amount'' = JStr (js_toString (amount d))
   \<and> get (requestBody d) ''currency'' = currency d
   \<and> get (requestBody d) ''externalId'' = process_id d
   \<and> get (requestBody d) ''payerMessage'' = message d
   \<and> posted_body (snd (requestToPay example_momo_config accepting example_details ''Bearer t''))
       = Some [(''amount'', JStr ''100''), (''currency'', JStr ''LRD''),
               (''externalId'', JStr ''ORDER-1''),
               (''payer'', JObj [(''partyIdType'', JStr ''MSISDN''),
                                 (''partyId'', JStr ''231770123456'')]),
               (''payerMessage'', JStr ''Payment for order''),
               (''payeeNote'', JStr ''Payment for order'')]
   \<and> posted_body (snd (requestToPay_dup example_momo_config accepting example_details ''Bearer t''))
       = Some [(''amount'', JStr ''1.00''), (''currency'', JStr ''USD''),
               (''externalId'', JStr ''ORDER-1''),
               (''payer'', JObj [(''partyIdType'', JStr ''MSISDN''),
                                 (''partyId'', JStr ''231770123456'')]),
               (''payerMessage'', JStr ''Payment for Litway Picks''),
               (''payeeNote'', JStr ''Payment for Litway Picks'')]"
proof -
  have g: "get (requestBody d) ''amount'' = JStr (js_toString (amount d))
   \<and> get (requestBody d) ''currency'' = currency d
   \<and> get (requestBody d) ''externalId'' = process_id d
   \<and> get (requestBody d) ''payerMessage'' = message d"
    by (simp add: requestBody_def get_def)
  have s: "posted_body (snd (requestToPay example_momo_config accepting example_details ''Bearer t''))
       = Some [(''amount'', JStr ''100''), (''currency'', JStr ''LRD''),
               (''externalId'', JStr ''ORDER-1''),
               (''payer'', JObj [(''partyIdType'', JStr ''MSISDN''),
                                 (''partyId'', JStr ''231770123456'')]),
               (''payerMessage'', JStr ''Payment for order''),
               (''payeeNote'', JStr ''Payment for order'')]"
    by code_simp
  have t: "posted_body (snd (requestToPay_dup example_momo_config accepting example_details ''Bearer t''))
       = Some [(''amount'', JStr ''1.00''), (''currency'', JStr ''USD''),
               (''externalId'', JStr ''ORDER-1''),
               (''payer'', JObj [(''partyIdType'', JStr ''MSISDN''),
                                 (''partyId'', JStr ''231770123456'')]),
               (''payerMessage'', JStr ''Payment for Litway Picks''),
               (''payeeNote'', JStr ''Payment for Litway Picks'')]"
    by code_simp
  from g s t show ?thesis by simp
qed

text \<open>
  Claim C9, as amended. The answer of the route is decided in this order: a thrown
  select of the persistent store gives 500; a row of the store with a terminal
  status gives 200; a thrown token fetch gives 500; a transaction returned by the
  payment network gives 200, or 500 when the update of the store throws; a cache
  entry gives 200; otherwise the answer is 404. So the route answers 404 exactly
  when the store gives no record with a terminal status, the payment network
  returns no transaction, the cache has no entry, and neither the select nor the
  token fetch throws; a record the store holds with a status that is not terminal
  does not keep the route from answering 404.
\<close>

theorem status_not_found_answers:
  "code (fst (status_route cfg w ref st)) =
     (if lookup_throws cfg w then 500
      else if in_store_terminal cfg w then 200
      else if token_throws w then 500
      else if at_network w then (if write_throws cfg w then 500 else 200)
      else if in_cache st ref then 200 else 404)
   \<and> (code (fst (status_route cfg w ref st)) = 404 \<longleftrightarrow>
        \<not> in_store_terminal cfg w \<and> \<not> at_network w \<and> \<not> in_cache st ref
        \<and> \<not> lookup_throws cfg w \<and> \<not> token_throws w)"
  by (simp add: status_code)

theorem status_404_with_stored_record_counterexample:
  "in_store online pending_in_store
   \<and> code (fst (status_route online pending_in_store ''uuid-1'' Map.empty)) = 404"
  by code_simp

theorem status_not_found_answers_witness:
  "code (fst (status_route online pending_in_store ''uuid-1'' Map.empty)) = 404
   \<and> code (fst (status_route online pending_in_store ''uuid-1''
        (store_set Map.empty (JStr ''uuid-1'') [(''referenceId'', JStr ''uuid-1'')]))) = 200
   \<and> code (fst (status_route online
        (pending_in_store\<lparr>fetchTransactionDetails := JObj [(''status'', JStr ''SUCCESSFUL'')]\<rparr>)
        ''uuid-1'' Map.empty)) = 200
   \<and> code (fst (status_route online
        (pending_in_store\<lparr>getAccessToken := Throws ''Failed to get access token''\<rparr>)
        ''uuid-1'' Map.empty)) = 500"
proof -
  let ?w = pending_in_store
  let ?st = "store_set Map.empty (JStr ''uuid-1'') [(''referenceId'', JStr ''uuid-1'')]"
  let ?w2 = "pending_in_store\<lparr>fetchTransactionDetails := JObj [(''status'', JStr ''SUCCESSFUL'')]\<rparr>"
  let ?w3 = "pending_in_store\<lparr>getAccessToken := Throws ''Failed to get access token''\<rparr>"
  have a: "\<not> in_store_terminal online ?w" "\<not> at_network ?w" "\<not> in_cache Map.empty ''uuid-1''"
    "\<not> lookup_throws online ?w" "\<not> token_throws ?w" "in_cache ?st ''uuid-1''"
    by code_simp+
  have b: "\<not> lookup_throws online ?w2" "\<not> in_store_terminal online ?w2" "\<not> token_throws ?w2"
    "\<not> write_throws online ?w2" "at_network ?w2"
    by code_simp+
  have c: "\<not> lookup_throws online ?w3" "\<not> in_store_terminal online ?w3" "token_throws ?w3"
    by code_simp+
  from status_not_found_answers [of online ?w "''uuid-1''" Map.empty] a
  have 1: "code (fst (status_route online ?w ''uuid-1'' Map.empty)) = 404"
    by simp
  from status_not_found_answers [of online ?w "''uuid-1''" ?st] a
  have 2: "code (fst (status_route online ?w ''uuid-1'' ?st)) = 200"
    by simp
  from status_not_found_answers [of online ?w2 "''uuid-1''" Map.empty] b
  have 3: "code (fst (status_route online ?w2 ''uuid-1'' Map.empty)) = 200"
    by simp
  from status_not_found_answers [of online ?w3 "''uuid-1''" Map.empty] c
  have 4: "code (fst (status_route online ?w3 ''uuid-1'' Map.empty)) = 500"
    by simp
  from 1 2 3 4 show ?thesis by simp
qed

end
